theory Spec2Isabelle
  imports Complex_Main
begin

section \<open>The waypoint updater of the CarND capstone (waypoint\_updater.py)\<close>

text \<open>
  The node keeps the latest pose, the base waypoints, a nearest-neighbour index over their
  2-D positions and the index of the next stop line. Ten times a second it publishes the
  waypoints ahead of the car, slowed down in front of a stop line.

  Python floats are modelled as \<^typ>\<open>real\<close>, Python and numpy integers as \<^typ>\<open>int\<close>.
  Waypoint objects live in a store (a function from addresses to waypoint values), and a
  Python list of waypoints is a list of addresses: the cruise branch of \<open>generate_lane\<close>
  hands out the objects of the base path themselves, and the deceleration branch creates
  new ones.
\<close>

subsection \<open>Messages\<close>

record Point =
  point_x :: real
  point_y :: real
  point_z :: real

record Quaternion =
  quat_x :: real
  quat_y :: real
  quat_z :: real
  quat_w :: real

record Pose =
  position :: Point
  orientation :: Quaternion

record Header =
  seq :: nat
  stamp :: "nat \<times> nat"
  frame_id :: string

record PoseStamped =
  ps_header :: Header
  ps_pose :: Pose

record Vector3 =
  vec_x :: real
  vec_y :: real
  vec_z :: real

record Twist =
  linear :: Vector3
  angular :: Vector3

record TwistStamped =
  ts_header :: Header
  ts_twist :: Twist

text \<open>\<open>styx_msgs/Waypoint\<close>: \<open>wp.pose\<close> and \<open>wp.twist\<close>.\<close>

record Waypoint =
  wp_pose :: PoseStamped
  wp_twist :: TwistStamped

type_synonym addr = nat

text \<open>\<open>styx_msgs/Lane\<close> as a Python object: its \<open>waypoints\<close> list holds references.\<close>

record Lane =
  lane_header :: Header
  lane_waypoints :: "addr list"

text \<open>A lane as it goes over the wire: the waypoints by value.\<close>

record LaneMsg =
  msg_header :: Header
  msg_waypoints :: "Waypoint list"

text \<open>The values a message constructor without arguments fills in.\<close>

definition Header0 :: Header where
  "Header0 = \<lparr>seq = 0, stamp = (0, 0), frame_id = []\<rparr>"

definition Vector0 :: Vector3 where
  "Vector0 = \<lparr>vec_x = 0, vec_y = 0, vec_z = 0\<rparr>"

definition PoseStamped0 :: PoseStamped where
  "PoseStamped0 =
     \<lparr>ps_header = Header0,
      ps_pose = \<lparr>position = \<lparr>point_x = 0, point_y = 0, point_z = 0\<rparr>,
                 orientation = \<lparr>quat_x = 0, quat_y = 0, quat_z = 0, quat_w = 0\<rparr>\<rparr>\<rparr>"

definition Waypoint0 :: Waypoint where
  "Waypoint0 =
     \<lparr>wp_pose = PoseStamped0,
      wp_twist = \<lparr>ts_header = Header0, ts_twist = \<lparr>linear = Vector0, angular = Vector0\<rparr>\<rparr>\<rparr>"

text \<open>\<open>waypoint.twist.twist.linear.x\<close>, read and written.\<close>

definition get_waypoint_velocity :: "Waypoint \<Rightarrow> real" where
  "get_waypoint_velocity waypoint = vec_x (linear (ts_twist (wp_twist waypoint)))"

definition with_velocity :: "Waypoint \<Rightarrow> real \<Rightarrow> Waypoint" where
  "with_velocity w v =
     w\<lparr>wp_twist := (wp_twist w)\<lparr>ts_twist := (ts_twist (wp_twist w))
        \<lparr>linear := (linear (ts_twist (wp_twist w)))\<lparr>vec_x := v\<rparr>\<rparr>\<rparr>\<rparr>"

definition wp_position :: "Waypoint \<Rightarrow> Point" where
  "wp_position w = position (ps_pose (wp_pose w))"

subsection \<open>Python lists\<close>

datatype error = IndexError | AttributeError | TypeError

text \<open>\<open>xs[i]\<close>: an index below zero counts from the end, one outside the list raises.\<close>

definition py_get :: "'a list \<Rightarrow> int \<Rightarrow> error + 'a" where
  "py_get xs i =
     (if 0 \<le> i \<and> i < int (length xs) then Inr (xs ! nat i)
      else if i < 0 \<and> - int (length xs) \<le> i then Inr (xs ! nat (int (length xs) + i))
      else Inl IndexError)"

text \<open>\<open>xs[i:j]\<close>: both bounds are clipped to the list, nothing raises.\<close>

definition py_bound :: "nat \<Rightarrow> int \<Rightarrow> nat" where
  "py_bound n i = (if i < 0 then nat (int n + i) else min (nat i) n)"

definition py_slice :: "'a list \<Rightarrow> int \<Rightarrow> int \<Rightarrow> 'a list" where
  "py_slice xs i j = take (py_bound (length xs) j - py_bound (length xs) i)
                          (drop (py_bound (length xs) i) xs)"

subsection \<open>The cumulative distance helper\<close>

text \<open>The lambda \<open>dl\<close> of \<open>distance\<close>.\<close>

definition dl :: "Point \<Rightarrow> Point \<Rightarrow> real" where
  "dl a b = sqrt ((point_x a - point_x b)\<^sup>2 + (point_y a - point_y b)\<^sup>2
                   + (point_z a - point_z b)\<^sup>2)"

text \<open>
  The body of \<open>for i in range(wp1, wp2 + 1)\<close>, over the indices still to visit; the loop
  state is \<open>(dist, wp1)\<close>, written \<open>(d, wp1)\<close>.
\<close>

fun distance_loop ::
  "(addr \<Rightarrow> Waypoint) \<Rightarrow> addr list \<Rightarrow> int list \<Rightarrow> real \<times> int \<Rightarrow> error + real \<times> int" where
  "distance_loop h waypoints [] (d, wp1) = Inr (d, wp1)"
| "distance_loop h waypoints (i # rest) (d, wp1) =
     (case py_get waypoints wp1 of
        Inl e \<Rightarrow> Inl e
      | Inr a \<Rightarrow>
          (case py_get waypoints i of
             Inl e \<Rightarrow> Inl e
           | Inr b \<Rightarrow>
               distance_loop h waypoints rest
                 (d + dl (wp_position (h a)) (wp_position (h b)), i)))"

definition distance :: "(addr \<Rightarrow> Waypoint) \<Rightarrow> addr list \<Rightarrow> int \<Rightarrow> int \<Rightarrow> error + real" where
  "distance h waypoints wp1 wp2 =
     (case distance_loop h waypoints [wp1..wp2] (0, wp1) of
        Inl e \<Rightarrow> Inl e
      | Inr (d, _) \<Rightarrow> Inr d)"

text \<open>The length of the segment between the waypoints at two offsets of a list.\<close>

definition seg :: "(addr \<Rightarrow> Waypoint) \<Rightarrow> addr list \<Rightarrow> nat \<Rightarrow> nat \<Rightarrow> real" where
  "seg h waypoints a b = dl (wp_position (h (waypoints ! a))) (wp_position (h (waypoints ! b)))"

subsection \<open>The spatial index\<close>

text \<open>
  \<open>scipy.spatial.KDTree\<close> is a library, not code of this node. A tree is modelled by the
  points it was built from, and \<open>tree.query(p, 1)[1]\<close> as the first index among the points
  nearest to \<open>p\<close> (squared distances order points as distances do). On no points at all
  the library has no neighbour to return and answers with the number of points.
\<close>

datatype KDTree = KDTree "(real \<times> real) list"

definition sqdist :: "real \<times> real \<Rightarrow> real \<times> real \<Rightarrow> real" where
  "sqdist p q = (fst p - fst q)\<^sup>2 + (snd p - snd q)\<^sup>2"

fun argmin_idx :: "real list \<Rightarrow> nat" where
  "argmin_idx [] = 0"
| "argmin_idx [a] = 0"
| "argmin_idx (a # b # bs) =
     (if a \<le> (b # bs) ! argmin_idx (b # bs) then 0 else Suc (argmin_idx (b # bs)))"

fun KDTree_query :: "KDTree \<Rightarrow> real \<times> real \<Rightarrow> int" where
  "KDTree_query (KDTree pts) p = int (argmin_idx (map (sqdist p) pts))"

text \<open>\<open>a - b\<close> and \<open>np.dot(a, b)\<close> on arrays of two numbers.\<close>

definition vsub :: "real \<times> real \<Rightarrow> real \<times> real \<Rightarrow> real \<times> real" where
  "vsub a b = (fst a - fst b, snd a - snd b)"

definition dot :: "real \<times> real \<Rightarrow> real \<times> real \<Rightarrow> real" where
  "dot a b = fst a * fst b + snd a * snd b"

subsection \<open>The node's state\<close>

text \<open>
  The member variables of \<open>WaypointUpdater\<close>, the store of waypoint objects with the next
  free address, and the lanes published on \<open>final_waypoints\<close> so far.
\<close>

record WaypointUpdater =
  store :: "addr \<Rightarrow> Waypoint"
  store_next :: addr
  waypoints_base :: "Lane option"
  waypoints_2d :: "(real \<times> real) list option"
  waypoints_tree :: "KDTree option"
  pose :: "PoseStamped option"
  stopline_wp_idx :: int
  lookahead_waypoints :: int
  max_deceleration :: real
  final_waypoints_pub :: "LaneMsg list"

text \<open>Every waypoint of the base path is an object that exists already.\<close>

definition store_ok :: "WaypointUpdater \<Rightarrow> bool" where
  "store_ok self =
     (case waypoints_base self of
        None \<Rightarrow> True
      | Some base \<Rightarrow> list_all (\<lambda>a. a < store_next self) (lane_waypoints base))"

text \<open>\<open>Waypoint()\<close>: a new object at an address no list holds yet.\<close>

definition new_Waypoint :: "WaypointUpdater \<Rightarrow> addr \<times> WaypointUpdater" where
  "new_Waypoint self =
     (store_next self,
      self\<lparr>store := (store self)(store_next self := Waypoint0),
           store_next := Suc (store_next self)\<rparr>)"

text \<open>\<open>waypoints[waypoint].twist.twist.linear.x = velocity\<close>, on the store.\<close>

definition set_waypoint_velocity ::
  "(addr \<Rightarrow> Waypoint) \<Rightarrow> addr list \<Rightarrow> int \<Rightarrow> real \<Rightarrow> error + (addr \<Rightarrow> Waypoint)" where
  "set_waypoint_velocity h waypoints waypoint velocity =
     (case py_get waypoints waypoint of
        Inl e \<Rightarrow> Inl e
      | Inr a \<Rightarrow> Inr (h(a := with_velocity (h a) velocity)))"

subsection \<open>The localizer\<close>

definition get_closest_waypoint_idx :: "WaypointUpdater \<Rightarrow> error + int" where
  "get_closest_waypoint_idx self =
     (case pose self of
        None \<Rightarrow> Inl AttributeError
      | Some ps \<Rightarrow>
          let x = point_x (position (ps_pose ps));
              y = point_y (position (ps_pose ps))
          in (case waypoints_tree self of
                None \<Rightarrow> Inl AttributeError
              | Some tree \<Rightarrow>
                  let closest_idx = KDTree_query tree (x, y)
                  in (case waypoints_2d self of
                        None \<Rightarrow> Inl TypeError
                      | Some w2d \<Rightarrow>
                          (case py_get w2d closest_idx of
                             Inl e \<Rightarrow> Inl e
                           | Inr closest_coord \<Rightarrow>
                               (case py_get w2d (closest_idx - 1) of
                                  Inl e \<Rightarrow> Inl e
                                | Inr prev_coord \<Rightarrow>
                                    let val = dot (vsub closest_coord prev_coord)
                                                  (vsub (x, y) closest_coord)
                                    in if val > 0
                                       then Inr ((closest_idx + 1) mod int (length w2d))
                                       else Inr closest_idx)))))"

subsection \<open>The speed profiler\<close>

text \<open>\<open>vel = max_deceleration * dist\<close>, and \<open>0\<close> instead when that is below \<open>1\<close>.\<close>

definition target_vel :: "real \<Rightarrow> real \<Rightarrow> real" where
  "target_vel max_decel d = (let vel = max_decel * d in if vel < 1 then 0 else vel)"

text \<open>
  The body of \<open>for i, wp in enumerate(waypoints)\<close>, over the pairs still to visit; \<open>temp\<close>
  is the list built so far.
\<close>

fun decelerate_loop ::
  "WaypointUpdater \<Rightarrow> addr list \<Rightarrow> int \<Rightarrow> (nat \<times> addr) list \<Rightarrow> addr list
     \<Rightarrow> error + WaypointUpdater \<times> addr list" where
  "decelerate_loop self waypoints closest_idx [] temp = Inr (self, temp)"
| "decelerate_loop self waypoints closest_idx ((i, wp) # rest) temp =
     (let (p, self1) = new_Waypoint self;
          self2 = self1\<lparr>store := (store self1)
                    (p := (store self1 p)\<lparr>wp_pose := wp_pose (store self1 wp)\<rparr>)\<rparr>;
          stop_idx = max (stopline_wp_idx self2 - closest_idx - 3) 0
      in (case distance (store self2) waypoints (int i) stop_idx of
            Inl e \<Rightarrow> Inl e
          | Inr d \<Rightarrow>
              let vel = target_vel (max_deceleration self2) d;
                  self3 = self2\<lparr>store := (store self2)
                            (p := with_velocity (store self2 p)
                                    (min vel (get_waypoint_velocity (store self2 wp))))\<rparr>
              in decelerate_loop self3 waypoints closest_idx rest (temp @ [p])))"

definition decelerate_waypoints ::
  "WaypointUpdater \<Rightarrow> addr list \<Rightarrow> int \<Rightarrow> error + WaypointUpdater \<times> addr list" where
  "decelerate_waypoints self waypoints closest_idx =
     decelerate_loop self waypoints closest_idx (enumerate 0 waypoints) []"

subsection \<open>The planned window\<close>

definition generate_lane :: "WaypointUpdater \<Rightarrow> error + WaypointUpdater \<times> Lane" where
  "generate_lane self =
     (case get_closest_waypoint_idx self of
        Inl e \<Rightarrow> Inl e
      | Inr closest_idx \<Rightarrow>
          let farthest_idx = closest_idx + lookahead_waypoints self
          in (case waypoints_base self of
                None \<Rightarrow> Inl AttributeError
              | Some base \<Rightarrow>
                  let base_waypoints = py_slice (lane_waypoints base) closest_idx farthest_idx
                  in if stopline_wp_idx self = - 1 \<or> stopline_wp_idx self \<ge> farthest_idx
                     then Inr (self, \<lparr>lane_header = Header0, lane_waypoints = base_waypoints\<rparr>)
                     else (case decelerate_waypoints self base_waypoints closest_idx of
                             Inl e \<Rightarrow> Inl e
                           | Inr (self', temp) \<Rightarrow>
                               Inr (self', \<lparr>lane_header = Header0, lane_waypoints = temp\<rparr>))))"

text \<open>Publishing writes the lane out by value.\<close>

definition serialize :: "(addr \<Rightarrow> Waypoint) \<Rightarrow> Lane \<Rightarrow> LaneMsg" where
  "serialize h lane = \<lparr>msg_header = lane_header lane, msg_waypoints = map h (lane_waypoints lane)\<rparr>"

definition publish_waypoints :: "WaypointUpdater \<Rightarrow> int \<Rightarrow> error + WaypointUpdater" where
  "publish_waypoints self closest_idx =
     (case generate_lane self of
        Inl e \<Rightarrow> Inl e
      | Inr (self', final_lane) \<Rightarrow>
          Inr (self'\<lparr>final_waypoints_pub :=
                       final_waypoints_pub self' @ [serialize (store self') final_lane]\<rparr>))"

subsection \<open>Callbacks and the main loop\<close>

definition pose_cb :: "WaypointUpdater \<Rightarrow> PoseStamped \<Rightarrow> WaypointUpdater" where
  "pose_cb self msg = self\<lparr>pose := Some msg\<rparr>"

definition traffic_cb :: "WaypointUpdater \<Rightarrow> int \<Rightarrow> WaypointUpdater" where
  "traffic_cb self msg_data = self\<lparr>stopline_wp_idx := msg_data\<rparr>"

text \<open>A received lane becomes objects: one new address for each of its waypoints.\<close>

definition receive :: "WaypointUpdater \<Rightarrow> LaneMsg \<Rightarrow> WaypointUpdater \<times> Lane" where
  "receive self msg =
     (let n = length (msg_waypoints msg);
          h = (\<lambda>a. if store_next self \<le> a \<and> a < store_next self + n
                    then msg_waypoints msg ! (a - store_next self) else store self a)
      in (self\<lparr>store := h, store_next := store_next self + n\<rparr>,
          \<lparr>lane_header = msg_header msg,
           lane_waypoints = [store_next self ..< store_next self + n]\<rparr>))"

definition waypoints_cb :: "WaypointUpdater \<Rightarrow> LaneMsg \<Rightarrow> WaypointUpdater" where
  "waypoints_cb self msg =
     (let (self1, waypoints) = receive self msg;
          self2 = self1\<lparr>waypoints_base := Some waypoints\<rparr>;
          w2d = map (\<lambda>a. (point_x (wp_position (store self2 a)),
                            point_y (wp_position (store self2 a))))
                    (lane_waypoints waypoints);
          self3 = self2\<lparr>waypoints_2d := Some w2d\<rparr>
      in self3\<lparr>waypoints_tree := Some (KDTree w2d)\<rparr>)"

text \<open>
  One pass through the body of the \<open>while\<close> loop of \<open>run\<close>. A message object and a tree
  are true in a condition, \<open>None\<close> is false.
\<close>

definition run_body :: "WaypointUpdater \<Rightarrow> error + WaypointUpdater" where
  "run_body self =
     (if pose self \<noteq> None \<and> waypoints_base self \<noteq> None \<and> waypoints_tree self \<noteq> None
      then (case get_closest_waypoint_idx self of
              Inl e \<Rightarrow> Inl e
            | Inr closest_waypoint_idx \<Rightarrow> publish_waypoints self closest_waypoint_idx)
      else Inr self)"

text \<open>
  The messages that arrive while the loop sleeps, and the loop itself: it runs once for
  each sleep until the node is shut down, and an exception ends it.
\<close>

datatype event = PoseMsg PoseStamped | WaypointsMsg LaneMsg | TrafficMsg int

fun deliver :: "WaypointUpdater \<Rightarrow> event \<Rightarrow> WaypointUpdater" where
  "deliver self (PoseMsg msg) = pose_cb self msg"
| "deliver self (WaypointsMsg msg) = waypoints_cb self msg"
| "deliver self (TrafficMsg n) = traffic_cb self n"

fun run :: "WaypointUpdater \<Rightarrow> event list list \<Rightarrow> error + WaypointUpdater" where
  "run self [] = Inr self"
| "run self (arrived # later) =
     (case run_body self of
        Inl e \<Rightarrow> Inl e
      | Inr self' \<Rightarrow> run (foldl deliver self' arrived) later)"

text \<open>\<open>__init__\<close> with the parameters read from the parameter server.\<close>

definition init :: "int \<Rightarrow> real \<Rightarrow> WaypointUpdater" where
  "init lookahead max_decel =
     \<lparr>store = (\<lambda>_. Waypoint0), store_next = 0, waypoints_base = None, waypoints_2d = None,
      waypoints_tree = None, pose = None, stopline_wp_idx = - 1,
      lookahead_waypoints = lookahead, max_deceleration = max_decel,
      final_waypoints_pub = []\<rparr>"

text \<open>The sum of the segment lengths from offset \<open>i\<close> up to offset \<open>j\<close>; nothing when \<open>j \<le> i\<close>.\<close>

definition path_len :: "(addr \<Rightarrow> Waypoint) \<Rightarrow> addr list \<Rightarrow> nat \<Rightarrow> nat \<Rightarrow> real" where
  "path_len h waypoints i j = (\<Sum>m = i..<j. seg h waypoints m (Suc m))"

text \<open>
  What the profiler is to put at offset \<open>i\<close> of a window whose stop offset is \<open>sl\<close>: a new
  waypoint with the pose of the one it stands for, and the smaller of the ramp speed and
  the cruise speed.
\<close>

definition profiled :: "(addr \<Rightarrow> Waypoint) \<Rightarrow> real \<Rightarrow> nat \<Rightarrow> addr list \<Rightarrow> nat \<Rightarrow> Waypoint" where
  "profiled h max_decel sl waypoints i =
     with_velocity (Waypoint0\<lparr>wp_pose := wp_pose (h (waypoints ! i))\<rparr>)
       (min (target_vel max_decel (path_len h waypoints i sl))
            (get_waypoint_velocity (h (waypoints ! i))))"

subsection \<open>A straight road\<close>

text \<open>
  The inputs the examples run on: waypoint \<open>k\<close> lies at \<open>(k, 0, 0)\<close> on the x axis, with the
  \<open>k\<close>-th of a list of cruise speeds, and is the object at address \<open>k\<close>; the car stands on
  the axis at \<open>x\<close>.
\<close>

definition wp_at :: "real \<Rightarrow> real \<Rightarrow> Waypoint" where
  "wp_at x v =
     \<lparr>wp_pose = \<lparr>ps_header = Header0,
                 ps_pose = \<lparr>position = \<lparr>point_x = x, point_y = 0, point_z = 0\<rparr>,
                            orientation = \<lparr>quat_x = 0, quat_y = 0, quat_z = 0, quat_w = 1\<rparr>\<rparr>\<rparr>,
      wp_twist = \<lparr>ts_header = Header0,
                  ts_twist = \<lparr>linear = \<lparr>vec_x = v, vec_y = 0, vec_z = 0\<rparr>, angular = Vector0\<rparr>\<rparr>\<rparr>"

definition road_store :: "real list \<Rightarrow> addr \<Rightarrow> Waypoint" where
  "road_store vs a = (if a < length vs then wp_at (real a) (vs ! a) else Waypoint0)"

definition road :: "real list \<Rightarrow> real \<Rightarrow> int \<Rightarrow> int \<Rightarrow> real \<Rightarrow> WaypointUpdater" where
  "road vs x stop_line lookahead max_decel =
     \<lparr>store = road_store vs, store_next = length vs,
      waypoints_base = Some \<lparr>lane_header = Header0, lane_waypoints = [0..<length vs]\<rparr>,
      waypoints_2d = Some (map (\<lambda>k. (real k, 0)) [0..<length vs]),
      waypoints_tree = Some (KDTree (map (\<lambda>k. (real k, 0)) [0..<length vs])),
      pose = Some (wp_pose (wp_at x 0)),
      stopline_wp_idx = stop_line, lookahead_waypoints = lookahead,
      max_deceleration = max_decel, final_waypoints_pub = []\<rparr>"

text \<open>The speeds of an emitted lane, read from the store it was emitted with.\<close>

definition emitted_speeds :: "error + WaypointUpdater \<times> Lane \<Rightarrow> real list" where
  "emitted_speeds r =
     (case r of
        Inl e \<Rightarrow> []
      | Inr (self', lane) \<Rightarrow>
          map (\<lambda>a. get_waypoint_velocity (store self' a)) (lane_waypoints lane))"

section \<open>Properties\<close>

subsection \<open>The distance helper\<close>

lemma dl_self: "dl a a = 0"
  by (simp add: dl_def)

lemma dl_nonneg: "0 \<le> dl a b"
  by (simp add: dl_def)

lemma seg_nonneg: "0 \<le> seg h wps a b"
  by (simp add: seg_def dl_nonneg)

lemma seg_self: "seg h wps a a = 0"
  by (simp add: seg_def dl_self)

lemma path_len_nonneg: "0 \<le> path_len h wps i j"
  by (simp add: path_len_def sum_nonneg seg_nonneg)

lemma py_get_nat: "0 \<le> i \<Longrightarrow> i < int (length xs) \<Longrightarrow> py_get xs i = Inr (xs ! nat i)"
  by (simp add: py_get_def)

text \<open>
  The loop over \<open>[k..j]\<close> entered with \<open>wp1 = p\<close>: the first step adds the segment from
  \<open>p\<close> to \<open>k\<close>, every later one the segment from the index before.
\<close>

lemma distance_loop_upto:
  assumes "0 \<le> p" "p < int (length wps)" "0 \<le> k" "j < int (length wps)"
  shows "distance_loop h wps [k..j] (d, p) =
         Inr (if k \<le> j
              then (d + seg h wps (nat p) (nat k) + path_len h wps (nat k) (nat j), j)
              else (d, p))"
  using assms
proof (induction "nat (j + 1 - k)" arbitrary: k d p)
  case 0
  then show ?case by simp
next
  case (Suc n)
  then have kj: "k \<le> j" by linarith
  have up: "[k..j] = k # [k + 1..j]" using kj by (simp add: upto_rec1)
  have n: "n = nat (j + 1 - (k + 1))" using Suc.hyps(2) by linarith
  have ih: "distance_loop h wps [k + 1..j] (d', k) =
         Inr (if k + 1 \<le> j
              then (d' + seg h wps (nat k) (nat (k + 1)) + path_len h wps (nat (k + 1)) (nat j), j)
              else (d', k))" for d'
    using Suc.hyps(1)[OF n, of k d'] Suc.prems kj by simp
  have kk: "nat (k + 1) = Suc (nat k)" using Suc.prems by simp
  show ?case
  proof (cases "k + 1 \<le> j")
    case True
    then have "nat k < nat j" using Suc.prems by linarith
    then have "path_len h wps (nat k) (nat j) =
        seg h wps (nat k) (Suc (nat k)) + path_len h wps (Suc (nat k)) (nat j)"
      by (simp add: path_len_def sum.atLeast_Suc_lessThan)
    then show ?thesis using True kj Suc.prems
      by (simp add: up py_get_nat ih kk seg_def)
  next
    case False
    then have "k = j" using kj by linarith
    then show ?thesis using Suc.prems by (simp add: up py_get_nat seg_def path_len_def)
  qed
qed

lemma distance_sum:
  assumes "0 \<le> i" "i \<le> j" "j < int (length wps)"
  shows "distance h wps i j = Inr (path_len h wps (nat i) (nat j))"
  using assms by (simp add: distance_def distance_loop_upto seg_self)

lemma distance_empty: "j < i \<Longrightarrow> distance h wps i j = Inr 0"
  by (simp add: distance_def)

lemma distance_path_len:
  assumes "0 \<le> i" "0 \<le> j" "j < int (length wps)"
  shows "distance h wps i j = Inr (path_len h wps (nat i) (nat j))"
proof (cases "i \<le> j")
  case True
  then show ?thesis using assms by (simp add: distance_sum)
next
  case False
  then have "nat j \<le> nat i" by simp
  then have "path_len h wps (nat i) (nat j) = 0" by (simp add: path_len_def)
  then show ?thesis using False by (simp add: distance_empty)
qed

subsection \<open>The deceleration loop\<close>

lemma py_get_in_set: "py_get xs i = Inr a \<Longrightarrow> a \<in> set xs"
  by (auto simp: py_get_def split: if_splits)

lemma distance_loop_cong:
  assumes "\<And>a. a \<in> set wps \<Longrightarrow> h a = h' a"
  shows "distance_loop h wps is st = distance_loop h' wps is st"
proof (induction "is" arbitrary: st)
  case Nil
  then show ?case by (cases st) simp
next
  case (Cons i rest)
  obtain d p where st: "st = (d, p)" by (cases st)
  show ?case
    unfolding st
    by (auto simp: Cons.IH assms dest!: py_get_in_set split: sum.splits)
qed

lemma distance_cong:
  assumes "\<And>a. a \<in> set wps \<Longrightarrow> h a = h' a"
  shows "distance h wps i j = distance h' wps i j"
  unfolding distance_def using distance_loop_cong[of wps h h', OF assms] by simp

lemma path_len_cong:
  assumes "\<And>a. a \<in> set wps \<Longrightarrow> h a = h' a" "j < length wps"
  shows "path_len h wps i j = path_len h' wps i j"
  unfolding path_len_def seg_def
  by (rule sum.cong) (use assms in auto)

lemma profiled_cong:
  assumes "\<And>a. a \<in> set wps \<Longrightarrow> h a = h' a" "sl < length wps" "i < length wps"
  shows "profiled h md sl wps i = profiled h' md sl wps i"
  using assms path_len_cong[of wps h h' sl i] by (simp add: profiled_def)

lemma decelerate_loop_inv:
  assumes "list_all (\<lambda>a. a < store_next self) (pre @ ys)"
    and "sl = nat (max (stopline_wp_idx self - ci - 3) 0)"
    and "sl < length (pre @ ys)"
  shows "\<exists>self'. decelerate_loop self (pre @ ys) ci (enumerate (length pre) ys) temp =
            Inr (self', temp @ [store_next self ..< store_next self + length ys])
        \<and> store_next self' = store_next self + length ys
        \<and> (\<forall>a<store_next self. store self' a = store self a)
        \<and> (\<forall>j<length ys. store self' (store_next self + j) =
               profiled (store self) (max_deceleration self) sl (pre @ ys) (length pre + j))
        \<and> self'\<lparr>store := store self, store_next := store_next self\<rparr> = self"
  using assms
proof (induction ys arbitrary: self pre temp)
  case Nil
  then show ?case by auto
next
  case (Cons y ys)
  let ?wps = "pre @ y # ys"
  let ?p = "store_next self"
  let ?k = "length pre"
  let ?h2 = "(store self)(?p := Waypoint0\<lparr>wp_pose := wp_pose (store self y)\<rparr>)"
  have fresh: "\<And>a. a \<in> set ?wps \<Longrightarrow> a < ?p"
    using Cons.prems(1) by (auto simp: list_all_iff)
  have yp: "y \<noteq> ?p" using fresh[of y] by auto
  have wk: "?wps ! ?k = y" by simp
  have agree2: "\<And>a. a \<in> set ?wps \<Longrightarrow> ?h2 a = store self a"
    using fresh by fastforce
  have stop: "max (stopline_wp_idx self - ci - 3) 0 = int sl"
    using Cons.prems(2) by simp
  have dist: "distance ?h2 ?wps (int ?k) (int sl) = Inr (path_len (store self) ?wps ?k sl)"
    using distance_path_len[of "int ?k" "int sl" ?wps ?h2] Cons.prems(3)
      path_len_cong[of ?wps ?h2 "store self" sl ?k, OF agree2]
    by simp
  let ?v = "min (target_vel (max_deceleration self) (path_len (store self) ?wps ?k sl))
                (get_waypoint_velocity (store self y))"
  let ?w = "with_velocity (Waypoint0\<lparr>wp_pose := wp_pose (store self y)\<rparr>) ?v"
  let ?self3 = "self\<lparr>store_next := Suc ?p, store := (store self)(?p := ?w)\<rparr>"
  have step: "decelerate_loop self ?wps ci (enumerate ?k (y # ys)) temp =
              decelerate_loop ?self3 ?wps ci (enumerate (Suc ?k) ys) (temp @ [?p])"
    using yp by (simp add: new_Waypoint_def stop dist)
  have fresh3: "list_all (\<lambda>a. a < store_next ?self3) ((pre @ [y]) @ ys)"
    using fresh by (auto simp: list_all_iff less_Suc_eq)
  have sl3: "sl = nat (max (stopline_wp_idx ?self3 - ci - 3) 0)"
    using Cons.prems(2) by simp
  have len3: "sl < length ((pre @ [y]) @ ys)" using Cons.prems(3) by simp
  obtain self' where
    r: "decelerate_loop ?self3 ((pre @ [y]) @ ys) ci (enumerate (length (pre @ [y])) ys) (temp @ [?p]) =
          Inr (self', (temp @ [?p]) @ [store_next ?self3 ..< store_next ?self3 + length ys])"
    and nx: "store_next self' = store_next ?self3 + length ys"
    and old: "\<forall>a<store_next ?self3. store self' a = store ?self3 a"
    and new: "\<forall>j<length ys. store self' (store_next ?self3 + j) =
               profiled (store ?self3) (max_deceleration ?self3) sl ((pre @ [y]) @ ys) (length (pre @ [y]) + j)"
    and rest: "self'\<lparr>store := store ?self3, store_next := store_next ?self3\<rparr> = ?self3"
    using Cons.IH[OF fresh3 sl3 len3, of "temp @ [?p]"] by blast
  have agree3: "\<And>a. a \<in> set ?wps \<Longrightarrow> store ?self3 a = store self a"
    using fresh by fastforce
  have res: "decelerate_loop self ?wps ci (enumerate ?k (y # ys)) temp =
          Inr (self', temp @ [?p ..< ?p + length (y # ys)])"
  proof -
    have e: "?p + length (y # ys) = Suc ?p + length ys" by simp
    have l1: "[?p ..< ?p + length (y # ys)] = ?p # [Suc ?p ..< ?p + length (y # ys)]"
      by (rule upt_conv_Cons) simp
    have lst: "[?p ..< ?p + length (y # ys)] = ?p # [Suc ?p ..< Suc ?p + length ys]"
      using l1 unfolding e .
    have r': "decelerate_loop ?self3 ?wps ci (enumerate (Suc ?k) ys) (temp @ [?p]) =
          Inr (self', temp @ ?p # [Suc ?p ..< Suc ?p + length ys])"
      using r by simp
    show ?thesis by (simp only: step r' lst)
  qed
  have nx': "store_next self' = ?p + length (y # ys)" using nx by simp
  have old': "\<forall>a<?p. store self' a = store self a"
    using old by auto
  have new': "\<forall>j<length (y # ys). store self' (?p + j) =
               profiled (store self) (max_deceleration self) sl ?wps (?k + j)"
  proof (intro allI impI)
    fix j assume j: "j < length (y # ys)"
    show "store self' (?p + j) = profiled (store self) (max_deceleration self) sl ?wps (?k + j)"
    proof (cases j)
      case 0
      have "store self' ?p = ?w" using old by simp
      then show ?thesis using 0 by (simp add: profiled_def)
    next
      case (Suc j')
      then have "j' < length ys" using j by simp
      then have "store self' (?p + j) =
          profiled (store ?self3) (max_deceleration self) sl ?wps (?k + j)"
        using new Suc by simp
      also have "\<dots> = profiled (store self) (max_deceleration self) sl ?wps (?k + j)"
        using profiled_cong[of ?wps "store ?self3" "store self" sl "?k + j", OF agree3] Cons.prems(3) j
        by simp
      finally show ?thesis .
    qed
  qed
  have rest': "self'\<lparr>store := store self, store_next := store_next self\<rparr> = self"
  proof -
    have "self'\<lparr>store := store self, store_next := store_next self\<rparr> =
          (self'\<lparr>store := store ?self3, store_next := store_next ?self3\<rparr>)\<lparr>store := store self, store_next := store_next self\<rparr>"
      by simp
    also have "\<dots> = ?self3\<lparr>store := store self, store_next := store_next self\<rparr>"
      using rest by simp
    also have "\<dots> = self" by simp
    finally show ?thesis .
  qed
  show ?case using res nx' old' new' rest' by blast
qed

lemma decelerate_waypoints_result:
  assumes "list_all (\<lambda>a. a < store_next self) wps"
    and "sl = nat (max (stopline_wp_idx self - ci - 3) 0)"
    and "sl < length wps"
  shows "\<exists>self'. decelerate_waypoints self wps ci =
            Inr (self', [store_next self ..< store_next self + length wps])
        \<and> store_next self' = store_next self + length wps
        \<and> (\<forall>a<store_next self. store self' a = store self a)
        \<and> (\<forall>j<length wps. store self' (store_next self + j) =
               profiled (store self) (max_deceleration self) sl wps j)
        \<and> self'\<lparr>store := store self, store_next := store_next self\<rparr> = self"
  using decelerate_loop_inv[of self "[]" wps sl ci "[]"] assms
  by (simp add: decelerate_waypoints_def)

lemma py_get_error: "py_get xs i = Inl e \<Longrightarrow> e = IndexError"
  by (auto simp: py_get_def split: if_splits)

lemma distance_loop_visits:
  assumes "distance_loop h wps is st = Inr r" "i \<in> set is"
  shows "\<exists>a. py_get wps i = Inr a"
  using assms
proof (induction "is" arbitrary: st)
  case Nil
  then show ?case by simp
next
  case (Cons k rest)
  obtain d p where st: "st = (d, p)" by (cases st)
  from Cons.prems show ?case
    unfolding st by (auto split: sum.splits dest: Cons.IH)
qed

lemma distance_loop_error: "distance_loop h wps is st = Inl e \<Longrightarrow> e = IndexError"
proof (induction "is" arbitrary: st)
  case Nil
  then show ?case by (cases st) simp
next
  case (Cons k rest)
  obtain d p where st: "st = (d, p)" by (cases st)
  from Cons.prems show ?case
    unfolding st by (auto split: sum.splits dest: Cons.IH py_get_error)
qed

lemma distance_out_of_range:
  assumes "i \<le> j" "int (length wps) \<le> j" "0 \<le> i"
  shows "distance h wps i j = Inl IndexError"
proof (cases "distance_loop h wps [i..j] (0, i)")
  case (Inl e)
  then show ?thesis using distance_loop_error[OF Inl] by (simp add: distance_def)
next
  case (Inr r)
  have "j \<in> set [i..j]" using assms by simp
  from distance_loop_visits[OF Inr this] obtain a where "py_get wps j = Inr a" by blast
  then show ?thesis using assms by (simp add: py_get_def split: if_splits)
qed

subsection \<open>The ramp and the profile\<close>

lemma target_vel_mono:
  assumes "0 \<le> d'" "d' \<le> d"
  shows "target_vel md d' \<le> target_vel md d"
proof (cases "0 \<le> md")
  case True
  then have "md * d' \<le> md * d" using assms by (simp add: mult_left_mono)
  then show ?thesis by (auto simp: target_vel_def Let_def)
next
  case False
  then have "md * d' \<le> 0" "md * d \<le> 0" using assms
    by (simp_all add: mult_nonpos_nonneg)
  then show ?thesis by (simp add: target_vel_def Let_def)
qed

lemma target_vel_zero: "target_vel md 0 = 0"
  by (simp add: target_vel_def)

lemma path_len_antimono:
  assumes "i \<le> j"
  shows "path_len h wps j sl \<le> path_len h wps i sl"
  unfolding path_len_def
  by (rule sum_mono2) (use assms in \<open>auto simp: seg_nonneg\<close>)

lemma path_len_past: "sl \<le> i \<Longrightarrow> path_len h wps i sl = 0"
  by (simp add: path_len_def)

lemma get_velocity_with_velocity: "get_waypoint_velocity (with_velocity w v) = v"
  by (simp add: get_waypoint_velocity_def with_velocity_def)

lemma pose_with_velocity: "wp_pose (with_velocity w v) = wp_pose w"
  by (simp add: with_velocity_def)

lemma velocity_profiled:
  "get_waypoint_velocity (profiled h md sl wps i) =
     min (target_vel md (path_len h wps i sl)) (get_waypoint_velocity (h (wps ! i)))"
  by (simp add: profiled_def get_velocity_with_velocity)

lemma pose_profiled: "wp_pose (profiled h md sl wps i) = wp_pose (h (wps ! i))"
  by (simp add: profiled_def pose_with_velocity)

lemma decelerate_waypoints_returns:
  assumes "decelerate_waypoints self wps ci = Inr r"
  shows "wps = [] \<or> nat (max (stopline_wp_idx self - ci - 3) 0) < length wps"
proof (cases wps)
  case Nil
  then show ?thesis by simp
next
  case (Cons y ys)
  show ?thesis
  proof (rule ccontr)
    assume "\<not> ?thesis"
    then have big: "int (length wps) \<le> max (stopline_wp_idx self - ci - 3) 0" by linarith
    have "distance h wps (int 0) (max (stopline_wp_idx self - ci - 3) 0) = Inl IndexError" for h
      using distance_out_of_range[of "int 0" _ wps h] big by simp
    then have "decelerate_waypoints self wps ci = Inl IndexError"
      by (simp add: decelerate_waypoints_def Cons new_Waypoint_def)
    then show False using assms by simp
  qed
qed

subsection \<open>Slices and the nearest point\<close>

lemma py_slice_length:
  assumes "0 \<le> a" "0 \<le> n"
  shows "length (py_slice xs a (a + n)) = min (nat n) (length xs - nat a)"
  using assms by (auto simp: py_slice_def py_bound_def min_def nat_add_distrib)

lemma py_slice_nth:
  assumes "0 \<le> a" "i < length (py_slice xs a b)"
  shows "py_slice xs a b ! i = xs ! (nat a + i) \<and> nat a + i < length xs"
proof -
  let ?lo = "py_bound (length xs) a"
  let ?hi = "py_bound (length xs) b"
  have len: "i < ?hi - ?lo" "i < length xs - ?lo"
    using assms(2) by (simp_all add: py_slice_def)
  have lo: "?lo = min (nat a) (length xs)" using assms(1) by (simp add: py_bound_def)
  have lo': "?lo = nat a" using len(2) lo by linarith
  have "py_slice xs a b ! i = drop ?lo xs ! i"
    unfolding py_slice_def using len(1) by (rule nth_take)
  also have "\<dots> = xs ! (?lo + i)" using len(2) by simp
  finally show ?thesis using lo' len(2) by simp
qed

lemma py_slice_subset: "set (py_slice xs a b) \<subseteq> set xs"
  unfolding py_slice_def by (meson set_drop_subset set_take_subset subset_trans)

lemma argmin_idx_less: "xs \<noteq> [] \<Longrightarrow> argmin_idx xs < length xs"
  by (induction xs rule: argmin_idx.induct) auto

lemma argmin_idx_least: "y \<in> set xs \<Longrightarrow> xs ! argmin_idx xs \<le> y"
  by (induction xs rule: argmin_idx.induct) (auto simp: Let_def)


subsection \<open>The branches of the planner\<close>

lemma decelerate_waypoints_cases:
  assumes "decelerate_waypoints self wps ci = Inr (self', temp)"
    and "list_all (\<lambda>a. a < store_next self) wps"
    and "sl = nat (max (stopline_wp_idx self - ci - 3) 0)"
  shows "temp = [store_next self ..< store_next self + length wps]
        \<and> store_next self' = store_next self + length wps
        \<and> (\<forall>a<store_next self. store self' a = store self a)
        \<and> (\<forall>j<length wps. store self' (store_next self + j) =
               profiled (store self) (max_deceleration self) sl wps j)
        \<and> self'\<lparr>store := store self, store_next := store_next self\<rparr> = self"
proof (cases "wps = []")
  case True
  then show ?thesis using assms(1) by (auto simp: decelerate_waypoints_def)
next
  case False
  then have "sl < length wps"
    using decelerate_waypoints_returns[OF assms(1)] assms(3) by simp
  from decelerate_waypoints_result[OF assms(2) assms(3) this] assms(1)
  show ?thesis by auto
qed

lemma get_closest_nonneg:
  assumes "get_closest_waypoint_idx self = Inr c"
  shows "0 \<le> c"
proof -
  from assms obtain tree ps w2d where
    t: "waypoints_tree self = Some tree" and p: "pose self = Some ps"
    and w: "waypoints_2d self = Some w2d"
    by (auto simp: get_closest_waypoint_idx_def Let_def split: option.splits)
  obtain pts where tr: "tree = KDTree pts" by (cases tree)
  let ?q = "KDTree_query tree (point_x (position (ps_pose ps)), point_y (position (ps_pose ps)))"
  have q: "0 \<le> ?q" by (simp add: tr)
  have "c = ?q \<or> c = (?q + 1) mod int (length w2d)"
    using assms t p w by (auto simp: get_closest_waypoint_idx_def Let_def split: sum.splits if_splits)
  moreover have "0 \<le> (?q + 1) mod int (length w2d)"
    using q by (cases "length w2d = 0") simp_all
  ultimately show ?thesis using q by auto
qed

lemma generate_lane_branches:
  assumes "generate_lane self = Inr (self', lane)"
  shows "\<exists>c base. get_closest_waypoint_idx self = Inr c \<and> 0 \<le> c \<and> waypoints_base self = Some base
     \<and> (if stopline_wp_idx self = - 1 \<or> c + lookahead_waypoints self \<le> stopline_wp_idx self
         then self' = self
              \<and> lane = \<lparr>lane_header = Header0, lane_waypoints =
                    py_slice (lane_waypoints base) c (c + lookahead_waypoints self)\<rparr>
         else decelerate_waypoints self
                (py_slice (lane_waypoints base) c (c + lookahead_waypoints self)) c
                = Inr (self', lane_waypoints lane) \<and> lane_header lane = Header0)"
proof -
  from assms obtain c where c: "get_closest_waypoint_idx self = Inr c"
    by (auto simp: generate_lane_def split: sum.splits)
  from assms c obtain base where b: "waypoints_base self = Some base"
    by (auto simp: generate_lane_def Let_def split: option.splits)
  show ?thesis
    using assms c b get_closest_nonneg[OF c]
    by (auto simp: generate_lane_def Let_def split: sum.splits if_splits)
qed

lemma store_ok_window:
  assumes "store_ok self" "waypoints_base self = Some base"
  shows "list_all (\<lambda>a. a < store_next self) (py_slice (lane_waypoints base) a b)"
  using assms py_slice_subset[of "lane_waypoints base" a b]
  by (auto simp: store_ok_def list_all_iff)

subsection \<open>Evaluating the examples\<close>

lemmas road_eval = road_def road_store_def generate_lane_def get_closest_waypoint_idx_def
  decelerate_waypoints_def new_Waypoint_def distance_def dl_def wp_position_def wp_at_def
  target_vel_def with_velocity_def get_waypoint_velocity_def py_slice_def py_bound_def
  emitted_speeds_def py_get_def sqdist_def vsub_def dot_def upt_conv_Cons Waypoint0_def
  PoseStamped0_def Header0_def Vector0_def Let_def upto.simps

subsection \<open>Claims about the distance helper\<close>

lemma distance_loop_grows:
  "distance_loop h wps is (d, p) = Inr (d', p') \<Longrightarrow> d \<le> d'"
proof (induction "is" arbitrary: d p)
  case Nil
  then show ?case by simp
next
  case (Cons k rest)
  from Cons.prems obtain a b where
    "distance_loop h wps rest (d + dl (wp_position (h a)) (wp_position (h b)), k) = Inr (d', p')"
    by (auto split: sum.splits)
  from Cons.IH[OF this] show ?case using dl_nonneg[of "wp_position (h a)" "wp_position (h b)"]
    by linarith
qed

lemma distance_nonneg: "distance h wps i j = Inr d \<Longrightarrow> 0 \<le> d"
  unfolding distance_def
  by (auto split: sum.splits dest: distance_loop_grows)



subsection \<open>Claims about the main loop\<close>

text \<open>
  Claim C9. A pass through the loop with no pose, no base waypoints or no tree publishes
  nothing, raises nothing and leaves the node as it was; a pass that publishes had all
  three.
\<close>

theorem run_body_not_ready:
  "(pose self = None \<or> waypoints_base self = None \<or> waypoints_tree self = None
      \<longrightarrow> run_body self = Inr self)
   \<and> (\<forall>self'. run_body self = Inr self' \<and> final_waypoints_pub self' \<noteq> final_waypoints_pub self
      \<longrightarrow> pose self \<noteq> None \<and> waypoints_base self \<noteq> None \<and> waypoints_tree self \<noteq> None)"
  by (auto simp: run_body_def)

text \<open>
  A node that has only a pose so far passes without publishing; the node on the road
  publishes the two waypoints ahead of it.
\<close>

theorem run_body_not_ready_witness:
  "waypoints_base (pose_cb (init 30 (3/4)) (wp_pose (wp_at 0 0))) = None
   \<and> run_body (pose_cb (init 30 (3/4)) (wp_pose (wp_at 0 0)))
       = Inr (pose_cb (init 30 (3/4)) (wp_pose (wp_at 0 0)))
   \<and> run_body (road [5, 5, 5] 1 (- 1) 2 1)
       = Inr ((road [5, 5, 5] 1 (- 1) 2 1)
               \<lparr>final_waypoints_pub :=
                  [\<lparr>msg_header = Header0, msg_waypoints = [wp_at 1 5, wp_at 2 5]\<rparr>]\<rparr>)
   \<and> final_waypoints_pub (road [5, 5, 5] 1 (- 1) 2 1) = []
   \<and> pose (road [5, 5, 5] 1 (- 1) 2 1) \<noteq> None
   \<and> waypoints_base (road [5, 5, 5] 1 (- 1) 2 1) \<noteq> None
   \<and> waypoints_tree (road [5, 5, 5] 1 (- 1) 2 1) \<noteq> None"
proof -
  have a: "run_body (pose_cb (init 30 (3/4)) (wp_pose (wp_at 0 0)))
       = Inr (pose_cb (init 30 (3/4)) (wp_pose (wp_at 0 0)))"
    using run_body_not_ready[of "pose_cb (init 30 (3/4)) (wp_pose (wp_at 0 0))"]
    by (simp add: init_def pose_cb_def)
  have b: "run_body (road [5, 5, 5] 1 (- 1) 2 1)
       = Inr ((road [5, 5, 5] 1 (- 1) 2 1)
               \<lparr>final_waypoints_pub :=
                  [\<lparr>msg_header = Header0, msg_waypoints = [wp_at 1 5, wp_at 2 5]\<rparr>]\<rparr>)"
    by (simp add: run_body_def publish_waypoints_def serialize_def road_eval)
  have c: "pose (road [5, 5, 5] 1 (- 1) 2 1) \<noteq> None
      \<and> waypoints_base (road [5, 5, 5] 1 (- 1) 2 1) \<noteq> None
      \<and> waypoints_tree (road [5, 5, 5] 1 (- 1) 2 1) \<noteq> None"
    using run_body_not_ready[of "road [5, 5, 5] 1 (- 1) 2 1"] b by (simp add: road_def)
  show ?thesis using a b c by (simp add: init_def pose_cb_def road_def)
qed

subsection \<open>Claims about the localizer\<close>

text \<open>
  Claim C1. With a pose and a path of at least two points, \<open>get_closest_waypoint_idx\<close>
  takes the index \<open>c\<close> the tree returns for the pose (in range, and of a nearest point),
  takes as the previous point the one before it in the path, the last one for \<open>c = 0\<close>,
  and returns \<open>c\<close> if the dot product of (closest - previous) and (pose - closest) is at
  most 0, and \<open>(c + 1) mod n\<close> otherwise. Counted around the path, the result is \<open>c\<close> or
  one ahead of it, never behind.
\<close>

theorem get_closest_waypoint_idx_rule:
  fixes self :: WaypointUpdater
  assumes "pose self = Some ps" "waypoints_2d self = Some w2d"
    and "waypoints_tree self = Some (KDTree w2d)" "2 \<le> length w2d"
  defines "xy \<equiv> (point_x (position (ps_pose ps)), point_y (position (ps_pose ps)))"
  defines "c \<equiv> KDTree_query (KDTree w2d) xy"
  defines "n \<equiv> int (length w2d)"
  shows "0 \<le> c \<and> c < n
     \<and> (\<forall>q\<in>set w2d. sqdist xy (w2d ! nat c) \<le> sqdist xy q)
     \<and> get_closest_waypoint_idx self =
         Inr (if dot (vsub (w2d ! nat c) (w2d ! nat ((c - 1) mod n))) (vsub xy (w2d ! nat c)) \<le> 0
              then c else (c + 1) mod n)
     \<and> (\<exists>r. get_closest_waypoint_idx self = Inr r \<and> 0 \<le> r \<and> r < n
              \<and> ((r - c) mod n = 0 \<or> (r - c) mod n = 1))"
proof -
  have ne: "map (sqdist xy) w2d \<noteq> []" using assms(4) by auto
  have c0: "0 \<le> c" by (simp add: c_def)
  have cn: "c < n" using argmin_idx_less[OF ne] by (simp add: c_def n_def)
  have near: "\<forall>q\<in>set w2d. sqdist xy (w2d ! nat c) \<le> sqdist xy q"
  proof
    fix q assume "q \<in> set w2d"
    then have "sqdist xy q \<in> set (map (sqdist xy) w2d)" by simp
    from argmin_idx_least[OF this] show "sqdist xy (w2d ! nat c) \<le> sqdist xy q"
      using argmin_idx_less[OF ne] by (simp add: c_def)
  qed
  have g1: "py_get w2d c = Inr (w2d ! nat c)"
    using c0 cn by (simp add: py_get_def n_def)
  have g2: "py_get w2d (c - 1) = Inr (w2d ! nat ((c - 1) mod n))"
  proof (cases "c = 0")
    case True
    have "0 < n" using assms(4) by (cases w2d) (simp_all add: n_def)
    then have "(c - 1) mod n = n - 1" using True by (simp add: zmod_minus1)
    then show ?thesis using True assms(4) by (simp add: py_get_def n_def)
  next
    case False
    then have "(c - 1) mod n = c - 1" using c0 cn by simp
    then show ?thesis using False c0 cn by (simp add: py_get_def n_def)
  qed
  have res: "get_closest_waypoint_idx self =
         Inr (if dot (vsub (w2d ! nat c) (w2d ! nat ((c - 1) mod n))) (vsub xy (w2d ! nat c)) \<le> 0
              then c else (c + 1) mod n)"
    using assms(1-3) g1 g2 unfolding c_def n_def xy_def
    by (auto simp: get_closest_waypoint_idx_def Let_def)
  have npos: "0 < n" using assms(4) by (cases w2d) (simp_all add: n_def)
  have m1: "0 \<le> (c + 1) mod n" "(c + 1) mod n < n" using npos by simp_all
  have m2: "((c + 1) mod n - c) mod n = 1"
  proof -
    have "((c + 1) mod n - c) mod n = ((c + 1) - c) mod n" by (simp add: mod_diff_left_eq)
    also have "\<dots> = 1 mod n" by simp
    also have "\<dots> = 1" using assms(4) by (simp add: n_def)
    finally show ?thesis .
  qed
  show ?thesis using c0 cn near res m1 m2 by auto
qed

text \<open>
  On three points of the road: half a unit past the last point the result wraps to 0; on
  the last point it is that point; one unit before the first point the previous point is
  the last one, and the result is 1.
\<close>

theorem get_closest_waypoint_idx_rule_witness:
  "pose (road [5, 5, 5] (5/2) (- 1) 2 1) = Some (wp_pose (wp_at (5/2) 0))
   \<and> waypoints_2d (road [5, 5, 5] (5/2) (- 1) 2 1) = Some [(0, 0), (1, 0), (2, 0)]
   \<and> waypoints_tree (road [5, 5, 5] (5/2) (- 1) 2 1) = Some (KDTree [(0, 0), (1, 0), (2, 0)])
   \<and> 2 \<le> length [(0, 0), (1, 0), (2::real, 0::real)]
   \<and> KDTree_query (KDTree [(0, 0), (1, 0), (2, 0)]) (5/2, 0) = 2
   \<and> get_closest_waypoint_idx (road [5, 5, 5] (5/2) (- 1) 2 1) = Inr 0
   \<and> get_closest_waypoint_idx (road [5, 5, 5] 2 (- 1) 2 1) = Inr 2
   \<and> get_closest_waypoint_idx (road [5, 5, 5] (- 1) (- 1) 2 1) = Inr 1"
proof -
  have p: "pose (road [5, 5, 5] x (- 1) 2 1) = Some (wp_pose (wp_at x 0))"
    and w: "waypoints_2d (road [5, 5, 5] x (- 1) 2 1) = Some [(0, 0), (1, 0), (2, 0)]"
    and t: "waypoints_tree (road [5, 5, 5] x (- 1) 2 1) = Some (KDTree [(0, 0), (1, 0), (2, 0)])"
    for x
    by (simp_all add: road_def upt_conv_Cons)
  have l: "2 \<le> length [(0, 0), (1, 0), (2::real, 0::real)]" by simp
  have q: "KDTree_query (KDTree [(0, 0), (1, 0), (2, 0)]) (5/2, 0) = 2"
    "KDTree_query (KDTree [(0, 0), (1, 0), (2, 0)]) (2, 0) = 2"
    "KDTree_query (KDTree [(0, 0), (1, 0), (2, 0)]) (- 1, 0) = 0"
    by (simp_all add: sqdist_def)
  have a: "get_closest_waypoint_idx (road [5, 5, 5] (5/2) (- 1) 2 1) = Inr 0"
    using get_closest_waypoint_idx_rule[OF p w t l, of "5/2"] q
    by (simp add: wp_at_def vsub_def dot_def)
  have b: "get_closest_waypoint_idx (road [5, 5, 5] 2 (- 1) 2 1) = Inr 2"
    using get_closest_waypoint_idx_rule[OF p w t l, of 2] q
    by (simp add: wp_at_def vsub_def dot_def)
  have c: "get_closest_waypoint_idx (road [5, 5, 5] (- 1) (- 1) 2 1) = Inr 1"
    using get_closest_waypoint_idx_rule[OF p w t l, of "- 1"] q
    by (simp add: wp_at_def vsub_def dot_def)
  show ?thesis using p w t l q a b c by simp
qed

subsection \<open>Claims about the speed profiler\<close>

lemma decelerate_waypoints_profile:
  assumes "list_all (\<lambda>a. a < store_next self) wps"
    and "max (stopline_wp_idx self - ci - 3) 0 < int (length wps)"
  shows "\<exists>self' temp. decelerate_waypoints self wps ci = Inr (self', temp)
        \<and> length temp = length wps
        \<and> (\<forall>i<length wps.
              distance (store self) wps (int i) (max (stopline_wp_idx self - ci - 3) 0) =
                Inr (path_len (store self) wps i (nat (max (stopline_wp_idx self - ci - 3) 0)))
              \<and> store self' (temp ! i) =
                  profiled (store self) (max_deceleration self)
                    (nat (max (stopline_wp_idx self - ci - 3) 0)) wps i)"
proof -
  let ?sl = "nat (max (stopline_wp_idx self - ci - 3) 0)"
  have sl: "?sl < length wps" using assms(2) by linarith
  from decelerate_waypoints_result[OF assms(1) refl sl]
  obtain self' where
    r: "decelerate_waypoints self wps ci =
          Inr (self', [store_next self ..< store_next self + length wps])"
    and new: "\<forall>j<length wps. store self' (store_next self + j) =
               profiled (store self) (max_deceleration self) ?sl wps j"
    by blast
  have d: "distance (store self) wps (int i) (max (stopline_wp_idx self - ci - 3) 0) =
        Inr (path_len (store self) wps i ?sl)" for i
    using distance_path_len[of "int i" "max (stopline_wp_idx self - ci - 3) 0" wps "store self"]
      assms(2) by simp
  show ?thesis using r new d by simp
qed

lemma road_distances:
  "distance (road_store [v0, v1, v2, v3, v4, v5]) [0, 1, 2, 3, 4, 5] 0 2 = Inr 2"
  "distance (road_store [v0, v1, v2, v3, v4, v5]) [0, 1, 2, 3, 4, 5] 1 2 = Inr 1"
  "distance (road_store [v0, v1, v2, v3, v4, v5]) [0, 1, 2, 3, 4, 5] 2 2 = Inr 0"
  "distance (road_store [v0, v1, v2, v3, v4, v5]) [0, 1, 2, 3, 4, 5] 3 2 = Inr 0"
  by (simp_all add: distance_def py_get_def upto.simps dl_def wp_position_def road_store_def wp_at_def)

lemma road_cruise:
  "get_waypoint_velocity (store (road [v0, v1, v2, v3, v4, v5] x s l m) 0) = v0"
  "get_waypoint_velocity (store (road [v0, v1, v2, v3, v4, v5] x s l m) 1) = v1"
  "get_waypoint_velocity (store (road [v0, v1, v2, v3, v4, v5] x s l m) 2) = v2"
  "get_waypoint_velocity (store (road [v0, v1, v2, v3, v4, v5] x s l m) 3) = v3"
  "get_waypoint_velocity (store (road [v0, v1, v2, v3, v4, v5] x s l m) 4) = v4"
  "get_waypoint_velocity (store (road [v0, v1, v2, v3, v4, v5] x s l m) 5) = v5"
  by (simp_all add: road_def road_store_def wp_at_def get_waypoint_velocity_def)

text \<open>
  Claim C2. For a window of existing waypoints whose stop offset
  \<open>max (stopline_wp_idx - closest_idx - 3) 0\<close> lies inside the window,
  \<open>decelerate_waypoints\<close> returns one waypoint for each waypoint of the window, and the
  speed at offset \<open>i\<close> is the smaller of the cruise speed at \<open>i\<close> and of
  \<open>max_deceleration * distance(window, i, stop offset)\<close>, the latter replaced by 0 when
  it is below 1.
\<close>

theorem decelerate_waypoints_speeds:
  assumes "list_all (\<lambda>a. a < store_next self) waypoints"
    and "max (stopline_wp_idx self - closest_idx - 3) 0 < int (length waypoints)"
  shows "\<exists>self' temp. decelerate_waypoints self waypoints closest_idx = Inr (self', temp)
        \<and> length temp = length waypoints
        \<and> (\<forall>i<length waypoints. \<exists>d.
              distance (store self) waypoints (int i)
                (max (stopline_wp_idx self - closest_idx - 3) 0) = Inr d
              \<and> get_waypoint_velocity (store self' (temp ! i)) =
                  min (if max_deceleration self * d < 1 then 0 else max_deceleration self * d)
                      (get_waypoint_velocity (store self (waypoints ! i))))"
proof -
  from decelerate_waypoints_profile[OF assms] obtain self' temp where
    r: "decelerate_waypoints self waypoints closest_idx = Inr (self', temp)"
    and l: "length temp = length waypoints"
    and p: "\<forall>i<length waypoints.
              distance (store self) waypoints (int i) (max (stopline_wp_idx self - closest_idx - 3) 0) =
                Inr (path_len (store self) waypoints i (nat (max (stopline_wp_idx self - closest_idx - 3) 0)))
              \<and> store self' (temp ! i) =
                  profiled (store self) (max_deceleration self)
                    (nat (max (stopline_wp_idx self - closest_idx - 3) 0)) waypoints i"
    by blast
  show ?thesis
    using r l p by (auto simp: velocity_profiled target_vel_def Let_def)
qed

text \<open>
  Six waypoints of the road with cruise speeds 2, 5, 5, -1, 5, 5, the stop line at 5 and a
  deceleration of 10: the stop offset is 2 and the speeds at offsets 0 to 3 are 2, 5, 0, -1.
\<close>

theorem decelerate_waypoints_speeds_witness:
  "list_all (\<lambda>a. a < store_next (road [2, 5, 5, - 1, 5, 5] 0 5 6 10)) [0, 1, 2, 3, 4, 5]
   \<and> max (stopline_wp_idx (road [2, 5, 5, - 1, 5, 5] 0 5 6 10) - 0 - 3) 0
        < int (length [0, 1, 2, 3, 4, 5::nat])
   \<and> (\<exists>self' temp.
        decelerate_waypoints (road [2, 5, 5, - 1, 5, 5] 0 5 6 10) [0, 1, 2, 3, 4, 5] 0
          = Inr (self', temp)
        \<and> length temp = 6
        \<and> get_waypoint_velocity (store self' (temp ! 0)) = 2
        \<and> get_waypoint_velocity (store self' (temp ! 1)) = 5
        \<and> get_waypoint_velocity (store self' (temp ! 2)) = 0
        \<and> get_waypoint_velocity (store self' (temp ! 3)) = - 1)"
proof -
  let ?R = "road [2, 5, 5, - 1, 5, 5] 0 5 6 10"
  let ?w = "[0, 1, 2, 3, 4, 5::nat]"
  have f: "list_all (\<lambda>a. a < store_next ?R) ?w" by (simp add: road_def)
  have s: "max (stopline_wp_idx ?R - 0 - 3) 0 < int (length ?w)" by (simp add: road_def)
  have s2: "stopline_wp_idx ?R = 5" "max_deceleration ?R = 10"
    "store ?R = road_store [2, 5, 5, - 1, 5, 5]"
    by (simp_all add: road_def)
  from decelerate_waypoints_speeds[OF f s] obtain self' temp where
    r: "decelerate_waypoints ?R ?w 0 = Inr (self', temp)" and l: "length temp = length ?w"
    and v: "\<forall>i<length ?w. \<exists>d.
              distance (store ?R) ?w (int i) (max (stopline_wp_idx ?R - 0 - 3) 0) = Inr d
              \<and> get_waypoint_velocity (store self' (temp ! i)) =
                  min (if max_deceleration ?R * d < 1 then 0 else max_deceleration ?R * d)
                      (get_waypoint_velocity (store ?R (?w ! i)))"
    by blast
  have "get_waypoint_velocity (store self' (temp ! 0)) = 2"
    using v[rule_format, of 0] road_distances(1)[of 2 5 5 "- 1" 5 5] road_cruise(1)[of 2 5 5 "- 1" 5 5 0 5 6 10]
    by (auto simp: s2)
  moreover have "get_waypoint_velocity (store self' (temp ! 1)) = 5"
    using v[rule_format, of 1] road_distances(2)[of 2 5 5 "- 1" 5 5] road_cruise(2)[of 2 5 5 "- 1" 5 5 0 5 6 10]
    by (auto simp: s2)
  moreover have "get_waypoint_velocity (store self' (temp ! 2)) = 0"
    using v[rule_format, of 2] road_distances(3)[of 2 5 5 "- 1" 5 5] road_cruise(3)[of 2 5 5 "- 1" 5 5 0 5 6 10]
    by (auto simp: s2)
  moreover have "get_waypoint_velocity (store self' (temp ! 3)) = - 1"
    using v[rule_format, of 3] road_distances(4)[of 2 5 5 "- 1" 5 5] road_cruise(4)[of 2 5 5 "- 1" 5 5 0 5 6 10]
    by (auto simp: s2)
  ultimately show ?thesis using f s r l by auto
qed

text \<open>
  Claim C3, as the profiler has it. For a window of existing waypoints with the stop offset
  \<open>sl\<close> inside it, the emitted speed at an offset is the smaller of the ramp and the cruise
  speed there, and the ramp never increases towards \<open>sl\<close>. So for offsets \<open>i \<le> j \<le> sl\<close> the
  emitted speed at \<open>j\<close> is at most the one at \<open>i\<close> whenever the cruise speed at \<open>j\<close> is at
  most the one at \<open>i\<close>; in particular, if the cruise speeds do not increase from offset 0 to
  \<open>sl\<close>, neither do the emitted speeds. At every offset \<open>i \<ge> sl\<close> the emitted speed is the
  smaller of 0 and the cruise speed at \<open>i\<close>: exactly 0 wherever that cruise speed is not
  negative.
\<close>

theorem decelerate_waypoints_monotone:
  fixes self :: WaypointUpdater
  defines "cruise \<equiv> (\<lambda>self waypoints i. get_waypoint_velocity (store self (waypoints ! i)))"
  assumes "list_all (\<lambda>a. a < store_next self) waypoints"
    and "max (stopline_wp_idx self - closest_idx - 3) 0 = int sl" "sl < length waypoints"
  shows "\<exists>self' temp. decelerate_waypoints self waypoints closest_idx = Inr (self', temp)
        \<and> length temp = length waypoints
        \<and> (\<forall>i j. i \<le> j \<and> j \<le> sl \<and> cruise self waypoints j \<le> cruise self waypoints i
               \<longrightarrow> cruise self' temp j \<le> cruise self' temp i)
        \<and> ((\<forall>i j. i \<le> j \<and> j \<le> sl \<longrightarrow> cruise self waypoints j \<le> cruise self waypoints i)
               \<longrightarrow> (\<forall>i j. i \<le> j \<and> j \<le> sl \<longrightarrow> cruise self' temp j \<le> cruise self' temp i))
        \<and> (\<forall>i. sl \<le> i \<and> i < length waypoints
               \<longrightarrow> cruise self' temp i = min 0 (cruise self waypoints i))
        \<and> (\<forall>i. sl \<le> i \<and> i < length waypoints \<and> 0 \<le> cruise self waypoints i
               \<longrightarrow> cruise self' temp i = 0)"
proof -
  have w: "max (stopline_wp_idx self - closest_idx - 3) 0 < int (length waypoints)"
    using assms(3,4) by simp
  have n: "nat (max (stopline_wp_idx self - closest_idx - 3) 0) = sl" using assms(3) by simp
  from decelerate_waypoints_profile[OF assms(2) w] obtain self' temp where
    r: "decelerate_waypoints self waypoints closest_idx = Inr (self', temp)"
    and l: "length temp = length waypoints"
    and p: "\<forall>i<length waypoints. store self' (temp ! i) =
                  profiled (store self) (max_deceleration self) sl waypoints i"
    unfolding n by blast
  have v: "cruise self' temp i =
      min (target_vel (max_deceleration self) (path_len (store self) waypoints i sl))
          (cruise self waypoints i)" if "i < length waypoints" for i
    using p that by (simp add: cruise_def velocity_profiled)
  have pair: "cruise self' temp j \<le> cruise self' temp i"
    if "i \<le> j" "j \<le> sl" "cruise self waypoints j \<le> cruise self waypoints i" for i j
  proof -
    have "target_vel (max_deceleration self) (path_len (store self) waypoints j sl)
        \<le> target_vel (max_deceleration self) (path_len (store self) waypoints i sl)"
      using path_len_antimono[OF that(1)] path_len_nonneg by (rule target_vel_mono[rotated])
    then show ?thesis using v[of i] v[of j] that assms(4) by (simp add: min_le_iff_disj)
  qed
  have past: "cruise self' temp i = min 0 (cruise self waypoints i)"
    if "sl \<le> i" "i < length waypoints" for i
    using v[OF that(2)] that(1) by (simp add: path_len_past target_vel_zero)
  have zero: "cruise self' temp i = 0"
    if "sl \<le> i" "i < length waypoints" "0 \<le> cruise self waypoints i" for i
    using past[OF that(1,2)] that(3) by simp
  show ?thesis
    apply (rule exI[of _ self'], rule exI[of _ temp])
    using r l pair past zero by blast
qed

text \<open>
  As the claim is worded, for every window, it fails: on the road with cruise speeds
  2, 5, 5, -1, 5, 5 the emitted speed rises from 2 to 5 before the stop offset 2, and is -1
  behind it.
\<close>

theorem decelerate_waypoints_monotone_counterexample:
  "get_closest_waypoint_idx (road [2, 5, 5, - 1, 5, 5] 0 5 6 10) = Inr 0
   \<and> max (stopline_wp_idx (road [2, 5, 5, - 1, 5, 5] 0 5 6 10) - 0 - 3) 0 = 2
   \<and> emitted_speeds (generate_lane (road [2, 5, 5, - 1, 5, 5] 0 5 6 10)) = [2, 5, 0, - 1, 0, 0]"
  by (simp add: road_eval)

text \<open>
  With the cruise speeds 5, 5, 5, -1, 5, 5 and a deceleration of 1 the speeds fall towards
  the stop offset 2, are 0 there and at offset 5, and -1 at offset 3.
\<close>

theorem decelerate_waypoints_monotone_witness:
  "list_all (\<lambda>a. a < store_next (road [5, 5, 5, - 1, 5, 5] 0 5 6 1)) [0, 1, 2, 3, 4, 5]
   \<and> max (stopline_wp_idx (road [5, 5, 5, - 1, 5, 5] 0 5 6 1) - 0 - 3) 0 = int 2
   \<and> 2 < length [0, 1, 2, 3, 4, 5::nat]
   \<and> (\<exists>self' temp.
        decelerate_waypoints (road [5, 5, 5, - 1, 5, 5] 0 5 6 1) [0, 1, 2, 3, 4, 5] 0
          = Inr (self', temp)
        \<and> length temp = 6
        \<and> get_waypoint_velocity (store self' (temp ! 1))
            \<le> get_waypoint_velocity (store self' (temp ! 0))
        \<and> get_waypoint_velocity (store self' (temp ! 2))
            \<le> get_waypoint_velocity (store self' (temp ! 1))
        \<and> get_waypoint_velocity (store self' (temp ! 2)) = 0
        \<and> get_waypoint_velocity (store self' (temp ! 3)) = - 1
        \<and> get_waypoint_velocity (store self' (temp ! 5)) = 0)"
proof -
  let ?R = "road [5, 5, 5, - 1, 5, 5] 0 5 6 1"
  let ?w = "[0, 1, 2, 3, 4, 5::nat]"
  let ?c = "\<lambda>self (ws::nat list) i. get_waypoint_velocity (store self (ws ! i))"
  have f: "list_all (\<lambda>a. a < store_next ?R) ?w" by (simp add: road_def)
  have s: "max (stopline_wp_idx ?R - 0 - 3) 0 = int 2" by (simp add: road_def)
  have l: "2 < length ?w" by simp
  have c: "?c ?R ?w 0 = 5" "?c ?R ?w 1 = 5" "?c ?R ?w 2 = 5" "?c ?R ?w 3 = - 1" "?c ?R ?w 5 = 5"
    using road_cruise[of 5 5 5 "- 1" 5 5 0 5 6 1] by simp_all
  have m: "\<forall>i j. i \<le> j \<and> j \<le> 2 \<longrightarrow> ?c ?R ?w j \<le> ?c ?R ?w i"
  proof (intro allI impI)
    fix i j :: nat assume a: "i \<le> j \<and> j \<le> 2"
    then have "i = 0 \<or> i = 1 \<or> i = 2" "j = 0 \<or> j = 1 \<or> j = 2" by linarith+
    then have "?c ?R ?w i = 5" "?c ?R ?w j = 5" using c by auto
    then show "?c ?R ?w j \<le> ?c ?R ?w i" by linarith
  qed
  from decelerate_waypoints_monotone[OF f s l] obtain self' temp where
    r: "decelerate_waypoints ?R ?w 0 = Inr (self', temp)" and lt: "length temp = length ?w"
    and pair: "\<And>i j. i \<le> j \<and> j \<le> 2 \<and> ?c ?R ?w j \<le> ?c ?R ?w i \<Longrightarrow> ?c self' temp j \<le> ?c self' temp i"
    and mono: "(\<forall>i j. i \<le> j \<and> j \<le> 2 \<longrightarrow> ?c ?R ?w j \<le> ?c ?R ?w i)
               \<Longrightarrow> (\<forall>i j. i \<le> j \<and> j \<le> 2 \<longrightarrow> ?c self' temp j \<le> ?c self' temp i)"
    and pst: "\<And>i. 2 \<le> i \<and> i < length ?w \<Longrightarrow> ?c self' temp i = min 0 (?c ?R ?w i)"
    and zero: "\<And>i. 2 \<le> i \<and> i < length ?w \<and> 0 \<le> ?c ?R ?w i \<Longrightarrow> ?c self' temp i = 0"
    by blast
  have mm: "\<And>i j. i \<le> j \<and> j \<le> 2 \<Longrightarrow> ?c self' temp j \<le> ?c self' temp i"
    using mono[OF m] by blast
  have "?c self' temp 1 \<le> ?c self' temp 0" using mm[of 0 1] by simp
  moreover have "?c self' temp 2 \<le> ?c self' temp 1" using pair[of 1 2] c by simp
  moreover have "?c self' temp 2 = 0" using zero[of 2] c by simp
  moreover have "?c self' temp 3 = - 1" using pst[of 3] c by simp
  moreover have "?c self' temp 5 = 0" using zero[of 5] c by simp
  ultimately show ?thesis using f s l r lt by auto
qed

text \<open>
  Claim C10, as the code has it. When \<open>j < i\<close> the loop of \<open>distance\<close> is empty and the
  result is exactly 0; for \<open>0 \<le> i \<le> j\<close> within the list every access is in range and a
  result is returned; and no result is ever negative. So at every offset past the stop
  offset of a window the profiler gets the distance 0 and computes the velocity 0 without
  an error, and the speed it emits there is the smaller of 0 and the cruise speed: 0
  wherever the cruise speed is not negative.
\<close>

theorem distance_total:
  fixes self :: WaypointUpdater
  defines "cruise \<equiv> (\<lambda>self waypoints i. get_waypoint_velocity (store self (waypoints ! i)))"
  shows "(j < i \<longrightarrow> distance h wps i j = Inr 0)
   \<and> (0 \<le> i \<and> i \<le> j \<and> j < int (length wps) \<longrightarrow>
        (\<exists>d. distance h wps i j = Inr d \<and> 0 \<le> d))
   \<and> (\<forall>d. distance h wps i j = Inr d \<longrightarrow> 0 \<le> d)
   \<and> (list_all (\<lambda>a. a < store_next self) waypoints
        \<and> max (stopline_wp_idx self - closest_idx - 3) 0 = int sl \<and> sl < length waypoints
      \<longrightarrow> (\<exists>self' temp. decelerate_waypoints self waypoints closest_idx = Inr (self', temp)
             \<and> length temp = length waypoints
             \<and> (\<forall>k. sl < k \<and> k < length waypoints \<longrightarrow>
                   distance (store self) waypoints (int k) (int sl) = Inr 0
                 \<and> target_vel (max_deceleration self) 0 = 0
                 \<and> cruise self' temp k = min 0 (cruise self waypoints k)
                 \<and> (0 \<le> cruise self waypoints k \<longrightarrow> cruise self' temp k = 0))))"
proof -
  have a: "j < i \<longrightarrow> distance h wps i j = Inr 0" using distance_empty[of j i h wps] by blast
  have b: "0 \<le> i \<and> i \<le> j \<and> j < int (length wps) \<longrightarrow>
        (\<exists>d. distance h wps i j = Inr d \<and> 0 \<le> d)"
    using distance_sum[of i j wps h] path_len_nonneg[of h wps "nat i" "nat j"] by blast
  have c: "\<forall>d. distance h wps i j = Inr d \<longrightarrow> 0 \<le> d"
    using distance_nonneg[of h wps i j] by blast
  have d: "\<exists>self' temp. decelerate_waypoints self waypoints closest_idx = Inr (self', temp)
             \<and> length temp = length waypoints
             \<and> (\<forall>k. sl < k \<and> k < length waypoints \<longrightarrow>
                   distance (store self) waypoints (int k) (int sl) = Inr 0
                 \<and> target_vel (max_deceleration self) 0 = 0
                 \<and> cruise self' temp k = min 0 (cruise self waypoints k)
                 \<and> (0 \<le> cruise self waypoints k \<longrightarrow> cruise self' temp k = 0))"
    if f: "list_all (\<lambda>a. a < store_next self) waypoints"
      and s: "max (stopline_wp_idx self - closest_idx - 3) 0 = int sl" and l: "sl < length waypoints"
  proof -
    have w: "max (stopline_wp_idx self - closest_idx - 3) 0 < int (length waypoints)"
      using s l by simp
    have n: "nat (max (stopline_wp_idx self - closest_idx - 3) 0) = sl" using s by simp
    from decelerate_waypoints_profile[OF f w] obtain self' temp where
      r: "decelerate_waypoints self waypoints closest_idx = Inr (self', temp)"
      and lt: "length temp = length waypoints"
      and p: "\<forall>k<length waypoints. store self' (temp ! k) =
                  profiled (store self) (max_deceleration self) sl waypoints k"
      unfolding n by blast
    have e: "cruise self' temp k = min 0 (cruise self waypoints k)"
      if "sl < k" "k < length waypoints" for k
      using p that by (simp add: cruise_def velocity_profiled path_len_past target_vel_zero)
    have z: "distance (store self) waypoints (int k) (int sl) = Inr 0" if "sl < k" for k
      using that by (simp add: distance_empty)
    show ?thesis
      apply (rule exI[of _ self'], rule exI[of _ temp])
      using r lt e z by (simp add: target_vel_zero)
  qed
  show ?thesis using a b c d by blast
qed

text \<open>
  As the claim is worded, with the speed 0 at every offset past the stop offset, it fails:
  on the road with cruise speeds 5, 5, 5, -2, 5, 5 and the stop offset 2 the distance from
  offset 3 is 0 and the emitted speed there is -2.
\<close>

theorem distance_total_counterexample:
  "get_closest_waypoint_idx (road [5, 5, 5, - 2, 5, 5] 0 5 6 1) = Inr 0
   \<and> max (stopline_wp_idx (road [5, 5, 5, - 2, 5, 5] 0 5 6 1) - 0 - 3) 0 = 2
   \<and> distance (store (road [5, 5, 5, - 2, 5, 5] 0 5 6 1)) [0, 1, 2, 3, 4, 5] 3 2 = Inr 0
   \<and> emitted_speeds (generate_lane (road [5, 5, 5, - 2, 5, 5] 0 5 6 1)) = [2, 1, 0, - 2, 0, 0]
   \<and> emitted_speeds (generate_lane (road [5, 5, 5, - 2, 5, 5] 0 5 6 1)) ! 3 \<noteq> 0"
  by (simp add: road_eval)

text \<open>
  On three waypoints: from 2 back to 1 is 0, from 0 to 1 is 1. On the road above the
  emitted speed is -2 at offset 3 and 0 at offset 4.
\<close>

theorem distance_total_witness:
  "(1::int) < 2 \<and> distance (road_store [5, 5, 5]) [0, 1, 2] 2 1 = Inr 0
   \<and> (0::int) \<le> 0 \<and> (0::int) \<le> 1 \<and> (1::int) < int (length [0, 1, 2::nat])
   \<and> distance (road_store [5, 5, 5]) [0, 1, 2] 0 1 = Inr 1
   \<and> list_all (\<lambda>a. a < store_next (road [5, 5, 5, - 2, 5, 5] 0 5 6 1)) [0, 1, 2, 3, 4, 5]
   \<and> max (stopline_wp_idx (road [5, 5, 5, - 2, 5, 5] 0 5 6 1) - 0 - 3) 0 = int 2
   \<and> 2 < length [0, 1, 2, 3, 4, 5::nat]
   \<and> (\<exists>self' temp.
        decelerate_waypoints (road [5, 5, 5, - 2, 5, 5] 0 5 6 1) [0, 1, 2, 3, 4, 5] 0
          = Inr (self', temp)
        \<and> length temp = 6
        \<and> get_waypoint_velocity (store self' (temp ! 3)) = - 2
        \<and> 0 \<le> get_waypoint_velocity (store (road [5, 5, 5, - 2, 5, 5] 0 5 6 1) 4)
        \<and> get_waypoint_velocity (store self' (temp ! 4)) = 0)"
proof -
  let ?R = "road [5, 5, 5, - 2, 5, 5] 0 5 6 1"
  let ?w = "[0, 1, 2, 3, 4, 5::nat]"
  let ?c = "\<lambda>self (ws::nat list) i. get_waypoint_velocity (store self (ws ! i))"
  have a: "distance (road_store [5, 5, 5]) [0, 1, 2] 2 1 = Inr 0"
    using distance_total[of 1 2 "road_store [5, 5, 5]" "[0, 1, 2]"] by simp
  have b: "distance (road_store [5, 5, 5]) [0, 1, 2] 0 1 = Inr 1"
    by (simp add: distance_def py_get_def upto.simps dl_def wp_position_def road_store_def wp_at_def)
  have f: "list_all (\<lambda>a. a < store_next ?R) ?w" by (simp add: road_def)
  have s: "max (stopline_wp_idx ?R - 0 - 3) 0 = int 2" by (simp add: road_def)
  have l: "2 < length ?w" by simp
  have c: "?c ?R ?w 3 = - 2" "?c ?R ?w 4 = 5"
    using road_cruise[of 5 5 5 "- 2" 5 5 0 5 6 1] by simp_all
  from distance_total[of 0 0 "store ?R" ?w ?R ?w 0 2] f s l obtain self' temp where
    r: "decelerate_waypoints ?R ?w 0 = Inr (self', temp)" and lt: "length temp = length ?w"
    and past: "\<And>k. 2 < k \<and> k < length ?w \<Longrightarrow> ?c self' temp k = min 0 (?c ?R ?w k)"
    and zero: "\<And>k. 2 < k \<and> k < length ?w \<Longrightarrow> 0 \<le> ?c ?R ?w k \<Longrightarrow> ?c self' temp k = 0"
    by blast
  have "?c self' temp 3 = - 2" using past[of 3] c by simp
  moreover have "?c self' temp 4 = 0" using zero[of 4] c by simp
  ultimately show ?thesis using a b f s l r lt c by auto
qed

subsection \<open>Claims about the planned window\<close>

text \<open>
  The planner returns a lane whenever the closest index lies in the base path, the
  lookahead is positive and the stop line is not beyond the path: the stop offset then
  lies inside the window, and no access of \<open>distance\<close> is out of range.
\<close>

lemma generate_lane_returns:
  assumes "store_ok self" "get_closest_waypoint_idx self = Inr c"
    and "waypoints_base self = Some base" "c < int (length (lane_waypoints base))"
    and "0 < lookahead_waypoints self"
    and "stopline_wp_idx self < int (length (lane_waypoints base))"
  shows "\<exists>self' lane. generate_lane self = Inr (self', lane)"
proof (cases "stopline_wp_idx self = - 1 \<or> c + lookahead_waypoints self \<le> stopline_wp_idx self")
  case True
  then show ?thesis using assms(2,3) by (auto simp: generate_lane_def Let_def)
next
  case False
  let ?window = "py_slice (lane_waypoints base) c (c + lookahead_waypoints self)"
  have c0: "0 \<le> c" using assms(2) by (rule get_closest_nonneg)
  have "length ?window = min (nat (lookahead_waypoints self)) (length (lane_waypoints base) - nat c)"
    using c0 assms(5) by (intro py_slice_length) simp_all
  then have sl: "max (stopline_wp_idx self - c - 3) 0 < int (length ?window)"
    using False assms(4,5,6) c0 by (auto simp: min_def split: if_splits)
  have fresh: "list_all (\<lambda>a. a < store_next self) ?window"
    using assms(1,3) by (rule store_ok_window)
  from decelerate_waypoints_profile[OF fresh sl] obtain self' temp where
    "decelerate_waypoints self ?window c = Inr (self', temp)" by blast
  then show ?thesis using False assms(2,3) by (auto simp: generate_lane_def Let_def)
qed

lemma unchanged_fields:
  assumes "self'\<lparr>store := h, store_next := n\<rparr> = self"
  shows "waypoints_base self' = waypoints_base self"
proof -
  have "waypoints_base self' = waypoints_base (self'\<lparr>store := h, store_next := n\<rparr>)" by simp
  then show ?thesis using assms by simp
qed

lemma road_facts:
  "store_ok (road [v0, v1, v2] x s l m)"
  "waypoints_base (road [v0, v1, v2] x s l m) = Some \<lparr>lane_header = Header0, lane_waypoints = [0, 1, 2]\<rparr>"
  "stopline_wp_idx (road vs x s l m) = s"
  "lookahead_waypoints (road vs x s l m) = l"
  by (simp_all add: road_def store_ok_def upt_conv_Cons)

lemma road_closest:
  "get_closest_waypoint_idx (road [v0, v1, v2] 0 s l m) = Inr 0"
  "get_closest_waypoint_idx (road [v0, v1, v2] 1 s l m) = Inr 1"
  "get_closest_waypoint_idx (road [v0, v1, v2] 2 s l m) = Inr 2"
  by (simp_all add: road_eval)

lemma road_stops: "emitted_speeds (generate_lane (road [5, 5, 5] 0 2 3 1)) = [0, 0, 0]"
  by (simp add: road_eval)

lemma road_stops_returns: "\<exists>self' lane. generate_lane (road [5, 5, 5] 0 2 3 1) = Inr (self', lane)"
proof (cases "generate_lane (road [5, 5, 5] 0 2 3 1)")
  case (Inl e)
  then show ?thesis using road_stops by (simp add: emitted_speeds_def)
next
  case (Inr r)
  then show ?thesis by (cases r) simp
qed

text \<open>
  The cruise branch: with the stop line at \<open>-1\<close> or at least \<open>farthest_idx\<close>, the closest
  index plus the lookahead, the lane is the slice of the base waypoints.
\<close>

lemma generate_lane_cruise_branch:
  assumes "get_closest_waypoint_idx self = Inr c" "waypoints_base self = Some base"
    and "stopline_wp_idx self = - 1 \<or> c + lookahead_waypoints self \<le> stopline_wp_idx self"
  shows "generate_lane self =
     Inr (self, \<lparr>lane_header = Header0, lane_waypoints =
                   py_slice (lane_waypoints base) c (c + lookahead_waypoints self)\<rparr>)"
  using assms by (auto simp: generate_lane_def Let_def)

text \<open>
  A stop line inside the path that is at least the closest index plus the length of the
  window is at least the closest index plus the lookahead: the window is shorter than the
  lookahead only where it ends with the path.
\<close>

lemma window_beyond_stop:
  assumes "0 \<le> c" "stop < int (length xs)"
    and "c + int (length (py_slice xs c (c + h))) \<le> stop"
  shows "c + h \<le> stop"
proof (cases "0 \<le> h")
  case True
  have "length (py_slice xs c (c + h)) = min (nat h) (length xs - nat c)"
    using assms(1) True by (rule py_slice_length)
  then show ?thesis using assms True by (auto simp: min_def split: if_splits)
next
  case False
  then show ?thesis using assms(3) by linarith
qed

text \<open>
  Claim C4. For a stop constraint that is \<open>-1\<close> or an index into the base path: if it is
  \<open>-1\<close>, or at least the closest index plus the length of the window, \<open>generate_lane\<close>
  returns the slice of the base waypoints itself and leaves the node as it is, so every
  emitted speed is the speed of the base waypoint it stands for.
\<close>

theorem generate_lane_cruise:
  fixes self :: WaypointUpdater
  assumes "get_closest_waypoint_idx self = Inr c" "waypoints_base self = Some base"
    and "stopline_wp_idx self < int (length (lane_waypoints base))"
  defines "window \<equiv> py_slice (lane_waypoints base) c (c + lookahead_waypoints self)"
  assumes "stopline_wp_idx self = - 1 \<or> c + int (length window) \<le> stopline_wp_idx self"
  shows "generate_lane self = Inr (self, \<lparr>lane_header = Header0, lane_waypoints = window\<rparr>)
     \<and> emitted_speeds (generate_lane self) = map (\<lambda>a. get_waypoint_velocity (store self a)) window
     \<and> (\<forall>i<length window. window ! i = lane_waypoints base ! (nat c + i))"
proof -
  have c0: "0 \<le> c" using assms(1) by (rule get_closest_nonneg)
  have br: "stopline_wp_idx self = - 1 \<or> c + lookahead_waypoints self \<le> stopline_wp_idx self"
    using assms(5) window_beyond_stop[OF c0 assms(3), of "lookahead_waypoints self"]
    unfolding window_def by blast
  have g: "generate_lane self = Inr (self, \<lparr>lane_header = Header0, lane_waypoints = window\<rparr>)"
    unfolding window_def using assms(1,2) br by (rule generate_lane_cruise_branch)
  have e: "emitted_speeds (generate_lane self) =
      map (\<lambda>a. get_waypoint_velocity (store self a)) window"
    by (simp add: g emitted_speeds_def)
  have n: "\<forall>i<length window. window ! i = lane_waypoints base ! (nat c + i)"
    unfolding window_def
    using py_slice_nth[OF c0, of _ "lane_waypoints base" "c + lookahead_waypoints self"] by blast
  show ?thesis using g e n by blast
qed

text \<open>
  On three waypoints: no stop line at all, and a stop line at 2 with the car at 0, a
  lookahead of 2 and so a window of 2 waypoints.
\<close>

theorem generate_lane_cruise_witness:
  "get_closest_waypoint_idx (road [5, 5, 5] 1 (- 1) 2 1) = Inr 1
   \<and> stopline_wp_idx (road [5, 5, 5] 1 (- 1) 2 1) < int (length [0, 1, 2::nat])
   \<and> stopline_wp_idx (road [5, 5, 5] 1 (- 1) 2 1) = - 1
   \<and> generate_lane (road [5, 5, 5] 1 (- 1) 2 1)
       = Inr (road [5, 5, 5] 1 (- 1) 2 1, \<lparr>lane_header = Header0, lane_waypoints = [1, 2]\<rparr>)
   \<and> emitted_speeds (generate_lane (road [5, 5, 5] 1 (- 1) 2 1)) = [5, 5]
   \<and> get_closest_waypoint_idx (road [5, 5, 5] 0 2 2 1) = Inr 0
   \<and> stopline_wp_idx (road [5, 5, 5] 0 2 2 1) < int (length [0, 1, 2::nat])
   \<and> 0 + int (length (py_slice [0, 1, 2::nat] 0 (0 + lookahead_waypoints (road [5, 5, 5] 0 2 2 1))))
        \<le> stopline_wp_idx (road [5, 5, 5] 0 2 2 1)
   \<and> generate_lane (road [5, 5, 5] 0 2 2 1)
       = Inr (road [5, 5, 5] 0 2 2 1, \<lparr>lane_header = Header0, lane_waypoints = [0, 1]\<rparr>)
   \<and> emitted_speeds (generate_lane (road [5, 5, 5] 0 2 2 1)) = [5, 5]"
proof -
  have sl: "py_slice [0, 1, 2::nat] 1 (1 + 2) = [1, 2]" "py_slice [0, 1, 2::nat] 0 (0 + 2) = [0, 1]"
    by (simp_all add: py_slice_def py_bound_def)
  have i1: "stopline_wp_idx (road [5, 5, 5] 1 (- 1) 2 1)
             < int (length (lane_waypoints \<lparr>lane_header = Header0, lane_waypoints = [0, 1, 2]\<rparr>))"
    and i2: "stopline_wp_idx (road [5, 5, 5] 0 2 2 1)
             < int (length (lane_waypoints \<lparr>lane_header = Header0, lane_waypoints = [0, 1, 2]\<rparr>))"
    by (simp_all add: road_facts)
  have a: "stopline_wp_idx (road [5, 5, 5] 1 (- 1) 2 1) = - 1
      \<or> 1 + int (length (py_slice (lane_waypoints \<lparr>lane_header = Header0, lane_waypoints = [0, 1, 2]\<rparr>)
                          1 (1 + lookahead_waypoints (road [5, 5, 5] 1 (- 1) 2 1))))
          \<le> stopline_wp_idx (road [5, 5, 5] 1 (- 1) 2 1)"
    by (simp add: road_facts)
  have b: "stopline_wp_idx (road [5, 5, 5] 0 2 2 1) = - 1
      \<or> 0 + int (length (py_slice (lane_waypoints \<lparr>lane_header = Header0, lane_waypoints = [0, 1, 2]\<rparr>)
                          0 (0 + lookahead_waypoints (road [5, 5, 5] 0 2 2 1))))
          \<le> stopline_wp_idx (road [5, 5, 5] 0 2 2 1)"
    using sl by (simp add: road_facts)
  have v: "get_waypoint_velocity (store (road [5, 5, 5] x s l m) 0) = 5"
    "get_waypoint_velocity (store (road [5, 5, 5] x s l m) 1) = 5"
    "get_waypoint_velocity (store (road [5, 5, 5] x s l m) 2) = 5" for x s l m
    by (simp_all add: road_def road_store_def wp_at_def get_waypoint_velocity_def)
  show ?thesis
    using generate_lane_cruise[OF road_closest(2) road_facts(2) i1 a]
      generate_lane_cruise[OF road_closest(1) road_facts(2) i2 b] sl v
    by (simp add: road_facts road_closest emitted_speeds_def)
qed

text \<open>
  Claim C5, as the planner has it. For a closest index \<open>c\<close> and a lookahead \<open>h \<ge> 0\<close> the
  window is the slice of the base waypoints from \<open>c\<close>, of length \<open>min h (len - c)\<close>: its
  offset \<open>i\<close> is the base waypoint \<open>c + i\<close>, and it ends with the path, without wrapping.
  The lane that \<open>generate_lane\<close> returns has the length of the window and the poses of its
  waypoints.
\<close>

theorem generate_lane_window:
  fixes self :: WaypointUpdater
  assumes "store_ok self" "get_closest_waypoint_idx self = Inr c"
    and "waypoints_base self = Some base" "0 \<le> lookahead_waypoints self"
  defines "window \<equiv> py_slice (lane_waypoints base) c (c + lookahead_waypoints self)"
  shows "length window = min (nat (lookahead_waypoints self)) (length (lane_waypoints base) - nat c)
     \<and> (\<forall>i<length window. nat c + i < length (lane_waypoints base)
            \<and> window ! i = lane_waypoints base ! (nat c + i))
     \<and> (\<forall>self' lane. generate_lane self = Inr (self', lane) \<longrightarrow>
            length (lane_waypoints lane) = length window
          \<and> (\<forall>i<length window. wp_pose (store self' (lane_waypoints lane ! i))
                                  = wp_pose (store self (window ! i))))"
proof -
  have c0: "0 \<le> c" using assms(2) by (rule get_closest_nonneg)
  have len: "length window = min (nat (lookahead_waypoints self)) (length (lane_waypoints base) - nat c)"
    unfolding window_def using c0 assms(4) by (rule py_slice_length)
  have nth: "\<forall>i<length window. nat c + i < length (lane_waypoints base)
            \<and> window ! i = lane_waypoints base ! (nat c + i)"
    unfolding window_def
    using py_slice_nth[OF c0, of _ "lane_waypoints base" "c + lookahead_waypoints self"] by blast
  have fresh: "list_all (\<lambda>a. a < store_next self) window"
    unfolding window_def using assms(1,3) by (rule store_ok_window)
  have em: "length (lane_waypoints lane) = length window
          \<and> (\<forall>i<length window. wp_pose (store self' (lane_waypoints lane ! i))
                                  = wp_pose (store self (window ! i)))"
    if g: "generate_lane self = Inr (self', lane)" for self' lane
  proof (cases "stopline_wp_idx self = - 1 \<or> c + lookahead_waypoints self \<le> stopline_wp_idx self")
    case True
    then show ?thesis using generate_lane_branches[OF g] assms(2,3)
      by (auto simp: window_def)
  next
    case False
    then have d: "decelerate_waypoints self window c = Inr (self', lane_waypoints lane)"
      using generate_lane_branches[OF g] assms(2,3) by (auto simp: window_def)
    from decelerate_waypoints_cases[OF d fresh refl]
    have t: "lane_waypoints lane = [store_next self ..< store_next self + length window]"
      and p: "\<forall>j<length window. store self' (store_next self + j) =
               profiled (store self) (max_deceleration self)
                 (nat (max (stopline_wp_idx self - c - 3) 0)) window j"
      by blast+
    show ?thesis using t p by (simp add: pose_profiled)
  qed
  show ?thesis using len nth em by blast
qed

text \<open>The car at the last of three waypoints with a lookahead of 2: one waypoint.\<close>

theorem generate_lane_window_witness:
  "store_ok (road [5, 5, 5] 2 (- 1) 2 1)
   \<and> get_closest_waypoint_idx (road [5, 5, 5] 2 (- 1) 2 1) = Inr 2
   \<and> 0 \<le> lookahead_waypoints (road [5, 5, 5] 2 (- 1) 2 1)
   \<and> length (py_slice [0, 1, 2::nat] 2 (2 + 2)) = 1
   \<and> py_slice [0, 1, 2::nat] 2 (2 + 2) ! 0 = 2
   \<and> generate_lane (road [5, 5, 5] 2 (- 1) 2 1)
       = Inr (road [5, 5, 5] 2 (- 1) 2 1, \<lparr>lane_header = Header0, lane_waypoints = [2]\<rparr>)"
proof -
  have l: "0 \<le> lookahead_waypoints (road [5, 5, 5] 2 (- 1) 2 1)" by (simp add: road_facts)
  have g: "generate_lane (road [5, 5, 5] 2 (- 1) 2 1)
       = Inr (road [5, 5, 5] 2 (- 1) 2 1, \<lparr>lane_header = Header0, lane_waypoints = [2]\<rparr>)"
    by (simp add: road_eval)
  show ?thesis
    using generate_lane_window[OF road_facts(1) road_closest(3) road_facts(2) l] g
    by (simp add: road_facts road_closest)
qed

text \<open>
  The length \<open>min h len\<close> of the claim fails there: the lane has one waypoint, not
  \<open>min 2 3\<close>.
\<close>

theorem generate_lane_window_counterexample:
  "get_closest_waypoint_idx (road [5, 5, 5] 2 (- 1) 2 1) = Inr 2
   \<and> lookahead_waypoints (road [5, 5, 5] 2 (- 1) 2 1) = 2
   \<and> waypoints_base (road [5, 5, 5] 2 (- 1) 2 1)
       = Some \<lparr>lane_header = Header0, lane_waypoints = [0, 1, 2]\<rparr>
   \<and> generate_lane (road [5, 5, 5] 2 (- 1) 2 1)
       = Inr (road [5, 5, 5] 2 (- 1) 2 1, \<lparr>lane_header = Header0, lane_waypoints = [2]\<rparr>)
   \<and> length [2::nat] \<noteq> min 2 (length [0, 1, 2::nat])"
  by (simp add: road_eval)

text \<open>
  Claim C7. Whatever lane \<open>generate_lane\<close> returns, in the cruise branch or in the
  deceleration branch, the speed at each offset \<open>i\<close> is at most the speed of the base
  waypoint \<open>closest_idx + i\<close> it stands for.
\<close>

theorem generate_lane_speed_ceiling:
  assumes "generate_lane self = Inr (self', lane)" "store_ok self"
  shows "\<exists>c base. get_closest_waypoint_idx self = Inr c \<and> waypoints_base self = Some base
     \<and> (\<forall>i<length (lane_waypoints lane). nat c + i < length (lane_waypoints base)
          \<and> get_waypoint_velocity (store self' (lane_waypoints lane ! i))
              \<le> get_waypoint_velocity (store self (lane_waypoints base ! (nat c + i))))"
proof -
  from generate_lane_branches[OF assms(1)] obtain c base where
    c: "get_closest_waypoint_idx self = Inr c" and c0: "0 \<le> c"
    and b: "waypoints_base self = Some base"
    and br: "if stopline_wp_idx self = - 1 \<or> c + lookahead_waypoints self \<le> stopline_wp_idx self
         then self' = self
              \<and> lane = \<lparr>lane_header = Header0, lane_waypoints =
                    py_slice (lane_waypoints base) c (c + lookahead_waypoints self)\<rparr>
         else decelerate_waypoints self
                (py_slice (lane_waypoints base) c (c + lookahead_waypoints self)) c
                = Inr (self', lane_waypoints lane) \<and> lane_header lane = Header0"
    by blast
  let ?window = "py_slice (lane_waypoints base) c (c + lookahead_waypoints self)"
  have nth: "\<And>i. i < length ?window \<Longrightarrow> nat c + i < length (lane_waypoints base)
            \<and> ?window ! i = lane_waypoints base ! (nat c + i)"
    using py_slice_nth[OF c0, of _ "lane_waypoints base" "c + lookahead_waypoints self"] by blast
  have "\<forall>i<length (lane_waypoints lane). nat c + i < length (lane_waypoints base)
          \<and> get_waypoint_velocity (store self' (lane_waypoints lane ! i))
              \<le> get_waypoint_velocity (store self (lane_waypoints base ! (nat c + i)))"
  proof (cases "stopline_wp_idx self = - 1 \<or> c + lookahead_waypoints self \<le> stopline_wp_idx self")
    case True
    then show ?thesis using br nth by auto
  next
    case False
    then have d: "decelerate_waypoints self ?window c = Inr (self', lane_waypoints lane)"
      using br by auto
    have fresh: "list_all (\<lambda>a. a < store_next self) ?window"
      using assms(2) b by (rule store_ok_window)
    from decelerate_waypoints_cases[OF d fresh refl]
    have t: "lane_waypoints lane = [store_next self ..< store_next self + length ?window]"
      and p: "\<forall>j<length ?window. store self' (store_next self + j) =
               profiled (store self) (max_deceleration self)
                 (nat (max (stopline_wp_idx self - c - 3) 0)) ?window j"
      by blast+
    show ?thesis
    proof (intro allI impI)
      fix i assume "i < length (lane_waypoints lane)"
      then have i: "i < length ?window" using t by simp
      then have "store self' (lane_waypoints lane ! i) =
          profiled (store self) (max_deceleration self)
                 (nat (max (stopline_wp_idx self - c - 3) 0)) ?window i"
        using t p by simp
      then have "get_waypoint_velocity (store self' (lane_waypoints lane ! i))
          \<le> get_waypoint_velocity (store self (?window ! i))"
        by (simp add: velocity_profiled)
      then show "nat c + i < length (lane_waypoints base)
          \<and> get_waypoint_velocity (store self' (lane_waypoints lane ! i))
              \<le> get_waypoint_velocity (store self (lane_waypoints base ! (nat c + i)))"
        using nth[OF i] by simp
    qed
  qed
  then show ?thesis using c b by blast
qed

text \<open>The cruise branch on three waypoints, and the deceleration branch with a stop line at 2.\<close>

theorem generate_lane_speed_ceiling_witness:
  "store_ok (road [5, 5, 5] 1 (- 1) 2 1)
   \<and> generate_lane (road [5, 5, 5] 1 (- 1) 2 1)
       = Inr (road [5, 5, 5] 1 (- 1) 2 1, \<lparr>lane_header = Header0, lane_waypoints = [1, 2]\<rparr>)
   \<and> get_waypoint_velocity (store (road [5, 5, 5] 1 (- 1) 2 1) 2)
       \<le> get_waypoint_velocity (store (road [5, 5, 5] 1 (- 1) 2 1) ([0, 1, 2] ! (nat 1 + 1)))
   \<and> store_ok (road [5, 5, 5] 0 2 3 1)
   \<and> (\<exists>self' lane. generate_lane (road [5, 5, 5] 0 2 3 1) = Inr (self', lane)
        \<and> length (lane_waypoints lane) = 3
        \<and> get_waypoint_velocity (store self' (lane_waypoints lane ! 0))
             \<le> get_waypoint_velocity (store (road [5, 5, 5] 0 2 3 1) 0))"
proof -
  have g: "generate_lane (road [5, 5, 5] 1 (- 1) 2 1)
       = Inr (road [5, 5, 5] 1 (- 1) 2 1, \<lparr>lane_header = Header0, lane_waypoints = [1, 2]\<rparr>)"
    by (simp add: road_eval)
  have a: "get_waypoint_velocity (store (road [5, 5, 5] 1 (- 1) 2 1) 2)
       \<le> get_waypoint_velocity (store (road [5, 5, 5] 1 (- 1) 2 1) ([0, 1, 2] ! (nat 1 + 1)))"
    using generate_lane_speed_ceiling[OF g road_facts(1)] by (auto simp: road_facts road_closest)
  obtain self' lane where d: "generate_lane (road [5, 5, 5] 0 2 3 1) = Inr (self', lane)"
    using road_stops_returns by blast
  have "length (emitted_speeds (generate_lane (road [5, 5, 5] 0 2 3 1))) = 3"
    by (simp add: road_stops)
  then have l: "length (lane_waypoints lane) = 3" by (simp add: d emitted_speeds_def)
  have b: "get_waypoint_velocity (store self' (lane_waypoints lane ! 0))
             \<le> get_waypoint_velocity (store (road [5, 5, 5] 0 2 3 1) 0)"
  proof -
    from generate_lane_speed_ceiling[OF d road_facts(1)] l
    have "\<forall>i<3. get_waypoint_velocity (store self' (lane_waypoints lane ! i))
            \<le> get_waypoint_velocity (store (road [5, 5, 5] 0 2 3 1) ([0, 1, 2] ! i))"
      by (auto simp: road_facts road_closest)
    then have "get_waypoint_velocity (store self' (lane_waypoints lane ! 0))
            \<le> get_waypoint_velocity (store (road [5, 5, 5] 0 2 3 1) ([0, 1, 2] ! 0))"
      by (rule allE[where x = 0]) simp
    then show ?thesis by simp
  qed
  show ?thesis using g a d l b by (auto simp: road_facts)
qed

text \<open>
  Claim C8, as the planner has it. \<open>generate_lane\<close> leaves every waypoint of the base path
  as it was, and the base path itself. In the deceleration branch the emitted waypoints are
  new objects, none of them a waypoint of the base path, so setting the speed of one of
  them changes no waypoint of the base path. In the cruise branch the emitted waypoints are
  the objects of the base path themselves.
\<close>

theorem generate_lane_reference_unchanged:
  assumes "generate_lane self = Inr (self', lane)" "store_ok self"
    and "waypoints_base self = Some base" "get_closest_waypoint_idx self = Inr c"
  shows "waypoints_base self' = Some base
     \<and> (\<forall>a\<in>set (lane_waypoints base). store self' a = store self a)
     \<and> (if stopline_wp_idx self = - 1 \<or> c + lookahead_waypoints self \<le> stopline_wp_idx self
         then set (lane_waypoints lane) \<subseteq> set (lane_waypoints base)
         else set (lane_waypoints lane) \<inter> set (lane_waypoints base) = {}
            \<and> (\<forall>k v h'. set_waypoint_velocity (store self') (lane_waypoints lane) k v = Inr h'
                  \<longrightarrow> (\<forall>a\<in>set (lane_waypoints base). h' a = store self a)))"
proof -
  let ?window = "py_slice (lane_waypoints base) c (c + lookahead_waypoints self)"
  have old: "\<And>a. a \<in> set (lane_waypoints base) \<Longrightarrow> a < store_next self"
    using assms(2,3) by (auto simp: store_ok_def list_all_iff)
  show ?thesis
  proof (cases "stopline_wp_idx self = - 1 \<or> c + lookahead_waypoints self \<le> stopline_wp_idx self")
    case True
    then have "self' = self" "lane_waypoints lane = ?window"
      using generate_lane_branches[OF assms(1)] assms(3,4) by auto
    then show ?thesis using True assms(3) py_slice_subset[of "lane_waypoints base"] by auto
  next
    case False
    then have d: "decelerate_waypoints self ?window c = Inr (self', lane_waypoints lane)"
      using generate_lane_branches[OF assms(1)] assms(3,4) by auto
    have fresh: "list_all (\<lambda>a. a < store_next self) ?window"
      using assms(2,3) by (rule store_ok_window)
    from decelerate_waypoints_cases[OF d fresh refl]
    have t: "lane_waypoints lane = [store_next self ..< store_next self + length ?window]"
      and o: "\<forall>a<store_next self. store self' a = store self a"
      and r: "self'\<lparr>store := store self, store_next := store_next self\<rparr> = self"
      by blast+
    have wb: "waypoints_base self' = Some base" using unchanged_fields[OF r] assms(3) by simp
    have same: "\<forall>a\<in>set (lane_waypoints base). store self' a = store self a"
      using o old by simp
    have disj: "set (lane_waypoints lane) \<inter> set (lane_waypoints base) = {}"
      using t old by fastforce
    have upd: "\<forall>a\<in>set (lane_waypoints base). h' a = store self a"
      if "set_waypoint_velocity (store self') (lane_waypoints lane) k v = Inr h'" for k v h'
    proof -
      from that obtain b where b: "py_get (lane_waypoints lane) k = Inr b"
        and h: "h' = (store self')(b := with_velocity (store self' b) v)"
        by (auto simp: set_waypoint_velocity_def split: sum.splits)
      have "b \<in> set (lane_waypoints lane)" using b by (rule py_get_in_set)
      then have "b \<notin> set (lane_waypoints base)" using disj by auto
      then show ?thesis using h same by auto
    qed
    show ?thesis using False wb same disj upd by simp
  qed
qed

text \<open>The deceleration branch with a stop line at 2, and the cruise branch.\<close>

theorem generate_lane_reference_unchanged_witness:
  "store_ok (road [5, 5, 5] 0 2 3 1)
   \<and> get_closest_waypoint_idx (road [5, 5, 5] 0 2 3 1) = Inr 0
   \<and> \<not> (stopline_wp_idx (road [5, 5, 5] 0 2 3 1) = - 1
         \<or> 0 + lookahead_waypoints (road [5, 5, 5] 0 2 3 1)
             \<le> stopline_wp_idx (road [5, 5, 5] 0 2 3 1))
   \<and> (\<exists>self' lane. generate_lane (road [5, 5, 5] 0 2 3 1) = Inr (self', lane)
        \<and> waypoints_base self' = Some \<lparr>lane_header = Header0, lane_waypoints = [0, 1, 2]\<rparr>
        \<and> store self' 0 = store (road [5, 5, 5] 0 2 3 1) 0
        \<and> store self' 1 = store (road [5, 5, 5] 0 2 3 1) 1
        \<and> store self' 2 = store (road [5, 5, 5] 0 2 3 1) 2
        \<and> set (lane_waypoints lane) \<inter> {0, 1, 2} = {})
   \<and> generate_lane (road [5, 5, 5] 1 (- 1) 2 1)
       = Inr (road [5, 5, 5] 1 (- 1) 2 1, \<lparr>lane_header = Header0, lane_waypoints = [1, 2]\<rparr>)
   \<and> set [1, 2::nat] \<subseteq> set [0, 1, 2]"
proof -
  obtain self' lane where d: "generate_lane (road [5, 5, 5] 0 2 3 1) = Inr (self', lane)"
    using road_stops_returns by blast
  have n: "\<not> (stopline_wp_idx (road [5, 5, 5] 0 2 3 1) = - 1
         \<or> 0 + lookahead_waypoints (road [5, 5, 5] 0 2 3 1)
             \<le> stopline_wp_idx (road [5, 5, 5] 0 2 3 1))"
    by (simp add: road_facts)
  have u: "waypoints_base self' = Some \<lparr>lane_header = Header0, lane_waypoints = [0, 1, 2]\<rparr>
        \<and> store self' 0 = store (road [5, 5, 5] 0 2 3 1) 0
        \<and> store self' 1 = store (road [5, 5, 5] 0 2 3 1) 1
        \<and> store self' 2 = store (road [5, 5, 5] 0 2 3 1) 2
        \<and> set (lane_waypoints lane) \<inter> {0, 1, 2} = {}"
    using generate_lane_reference_unchanged[OF d road_facts(1) road_facts(2) road_closest(1)] n
    by simp
  have g: "generate_lane (road [5, 5, 5] 1 (- 1) 2 1)
       = Inr (road [5, 5, 5] 1 (- 1) 2 1, \<lparr>lane_header = Header0, lane_waypoints = [1, 2]\<rparr>)"
    by (simp add: road_eval)
  have "set [1, 2::nat] \<subseteq> set [0, 1, 2]"
    using generate_lane_reference_unchanged[OF g road_facts(1) road_facts(2) road_closest(2)]
    by simp
  then show ?thesis using d n u g by (auto simp: road_facts road_closest)
qed

text \<open>
  In the cruise branch the emitted waypoints are no copies: setting the speed of the first
  emitted waypoint to 9 sets the speed of waypoint 1 of the base path, which was 5.
\<close>

theorem generate_lane_reference_unchanged_counterexample:
  "generate_lane (road [5, 5, 5] 1 (- 1) 2 1)
       = Inr (road [5, 5, 5] 1 (- 1) 2 1, \<lparr>lane_header = Header0, lane_waypoints = [1, 2]\<rparr>)
   \<and> waypoints_base (road [5, 5, 5] 1 (- 1) 2 1)
       = Some \<lparr>lane_header = Header0, lane_waypoints = [0, 1, 2]\<rparr>
   \<and> get_waypoint_velocity (store (road [5, 5, 5] 1 (- 1) 2 1) ([0, 1, 2] ! 1)) = 5
   \<and> set_waypoint_velocity (store (road [5, 5, 5] 1 (- 1) 2 1)) [1, 2] 0 9
       = Inr ((store (road [5, 5, 5] 1 (- 1) 2 1))(1 := wp_at 1 9))
   \<and> get_waypoint_velocity (((store (road [5, 5, 5] 1 (- 1) 2 1))(1 := wp_at 1 9)) ([0, 1, 2] ! 1)) = 9"
  by (simp add: road_eval set_waypoint_velocity_def)

end
